theory Spec2Isabelle
  imports Main "HOL-Library.Char_ord" "HOL-Library.List_Lexorder" "HOL-Library.Multiset"
begin

section \<open>PubMed MCP server: request pipeline and XML decoder\<close>

text \<open>
  A shallow embedding of \<^verbatim>\<open>src/functions/_middleware.ts\<close>: the three XML decoders,
  the cache-keyed fetcher with its retry loop, and the seven tool implementations.

  Conventions of the model.
  \<^item> A JavaScript string is a \<^typ>\<open>string\<close> (a list of code units; the model has the
    8-bit ones). A string is truthy when it is not empty.
  \<^item> A plain object used as a parameter record is an association list with
    distinct keys, kept in property-enumeration order.
  \<^item> A raised exception is the \<open>Inl\<close> branch of a sum; a \<^verbatim>\<open>try/catch\<close> is the
    \<open>case\<close> that consumes it.
  \<^item> What the platform provides (the DOM parser, \<^verbatim>\<open>parseInt\<close>, the HTTP upstream,
    the Cache API store, the clock) is a parameter of the model.
  \<^item> Console output is not modelled. \<^verbatim>\<open>cache.put\<close> and \<^verbatim>\<open>new URL\<close> do not raise; a request
    that times out is a request that is rejected.
\<close>

subsection \<open>Strings and numbers\<close>

datatype exn = JsError string

text \<open>A JavaScript number as \<^verbatim>\<open>parseInt\<close> returns it: an integer or \<^verbatim>\<open>NaN\<close>.\<close>

datatype number = Num int | NaN

definition truthy :: "string \<Rightarrow> bool" where
  "truthy s = (s \<noteq> [])"

definition truthy_opt :: "string option \<Rightarrow> bool" where
  "truthy_opt v = (case v of None \<Rightarrow> False | Some s \<Rightarrow> truthy s)"

text \<open>\<^verbatim>\<open>Array.prototype.join\<close>.\<close>

fun join :: "string \<Rightarrow> string list \<Rightarrow> string" where
  "join sep [] = []"
| "join sep [x] = x"
| "join sep (x # y # ys) = x @ sep @ join sep (y # ys)"

text \<open>\<^verbatim>\<open>Number.prototype.toString\<close> on an integer value.\<close>

definition digit_char :: "nat \<Rightarrow> char" where
  "digit_char d = char_of (48 + d)"

fun digits :: "nat \<Rightarrow> string" where
  "digits n = (if n < 10 then [digit_char n] else digits (n div 10) @ [digit_char (n mod 10)])"

declare digits.simps [simp del]

definition toString :: "int \<Rightarrow> string" where
  "toString i = (if i < 0 then CHR ''-'' # digits (nat (- i)) else digits (nat i))"

text \<open>\<^verbatim>\<open>String.prototype.toLowerCase\<close>, on the ASCII letters.\<close>

definition lower_char :: "char \<Rightarrow> char" where
  "lower_char c = (let n = (of_char c :: nat) in if 65 \<le> n \<and> n \<le> 90 then char_of (n + 32) else c)"

definition toLowerCase :: "string \<Rightarrow> string" where
  "toLowerCase s = map lower_char s"

text \<open>\<^verbatim>\<open>String.prototype.includes\<close>.\<close>

fun includes_str :: "string \<Rightarrow> string \<Rightarrow> bool" where
  "includes_str [] sub = (sub = [])"
| "includes_str (c # cs) sub = (take (length sub) (c # cs) = sub \<or> includes_str cs sub)"

text \<open>\<^verbatim>\<open>Array.prototype.slice(0, end)\<close>: a negative end counts from the back.\<close>

definition slice0 :: "'a list \<Rightarrow> int \<Rightarrow> 'a list" where
  "slice0 xs e = (if e < 0 then take (nat (int (length xs) + e)) xs else take (nat e) xs)"

subsection \<open>The DOM\<close>

datatype node = Element string "(string \<times> string) list" "node list" | Text string

text \<open>
  An element handle is the node together with the tag names of its ancestors,
  nearest first: a selector with a descendant combinator looks at them.
\<close>

type_synonym element = "string list \<times> node"

datatype document = Document node

fun textContent_node :: "node \<Rightarrow> string" where
  "textContent_node (Text s) = s"
| "textContent_node (Element n atts cs) = concat (map textContent_node cs)"

definition textContent :: "element \<Rightarrow> string" where
  "textContent e = textContent_node (snd e)"

fun getAttribute :: "element \<Rightarrow> string \<Rightarrow> string option" where
  "getAttribute (anc, Text s) a = None"
| "getAttribute (anc, Element n atts cs) a = map_of atts a"

text \<open>The element itself and its descendant elements, in document order.\<close>

fun elems :: "string list \<Rightarrow> node \<Rightarrow> element list" where
  "elems anc (Text s) = []"
| "elems anc (Element n atts cs) = (anc, Element n atts cs) # concat (map (elems (n # anc)) cs)"

text \<open>
  A selector is a list of type selectors joined by the descendant combinator:
  \<^verbatim>\<open>"Journal Title"\<close> is \<open>[''Journal'', ''Title'']\<close>.
\<close>

fun anc_match :: "string list \<Rightarrow> string list \<Rightarrow> bool" where
  "anc_match [] anc = True"
| "anc_match (t # ts) [] = False"
| "anc_match (t # ts) (a # anc) = (if t = a then anc_match ts anc else anc_match (t # ts) anc)"

fun matches :: "string list \<Rightarrow> element \<Rightarrow> bool" where
  "matches sel (anc, Text s) = False"
| "matches sel (anc, Element n atts cs) =
     (case rev sel of [] \<Rightarrow> False | t # ts \<Rightarrow> n = t \<and> anc_match ts anc)"

definition querySelectorAll :: "element \<Rightarrow> string list \<Rightarrow> element list" where
  "querySelectorAll scope sel = filter (matches sel) (tl (elems (fst scope) (snd scope)))"

definition querySelector :: "element \<Rightarrow> string list \<Rightarrow> element option" where
  "querySelector scope sel = (case querySelectorAll scope sel of [] \<Rightarrow> None | e # es \<Rightarrow> Some e)"

fun doc_querySelectorAll :: "document \<Rightarrow> string list \<Rightarrow> element list" where
  "doc_querySelectorAll (Document root) sel = filter (matches sel) (elems [] root)"

definition doc_querySelector :: "document \<Rightarrow> string list \<Rightarrow> element option" where
  "doc_querySelector doc sel = (case doc_querySelectorAll doc sel of [] \<Rightarrow> None | e # es \<Rightarrow> Some e)"

subsection \<open>The platform\<close>

record platform =
  parseFromString :: "string \<Rightarrow> exn + document"
  parseInt :: "string \<Rightarrow> number"

subsection \<open>Types of the server\<close>

record Article =
  pmid :: string
  title :: string
  authors :: "string list"
  journal :: string
  pub_date :: string
  abstract :: string
  doi :: string

record SearchResult =
  count :: number
  pmids :: "string list"
  query_translation :: string

definition MAX_RETRIES :: nat where
  "MAX_RETRIES = 3"

definition CACHE_TTL :: nat where
  "CACHE_TTL = 3600"

definition EUTILS_BASE :: string where
  "EUTILS_BASE = ''https://eutils.ncbi.nlm.nih.gov/entrez/eutils''"

subsection \<open>XML parsing utilities\<close>

text \<open>The \<^verbatim>\<open>forEach\<close> loops that push the non-empty text of each element.\<close>

definition push_text :: "string list \<Rightarrow> element \<Rightarrow> string list" where
  "push_text acc elem = (let text = textContent elem in if truthy text then acc @ [text] else acc)"

definition parseESearchXML_try :: "platform \<Rightarrow> string \<Rightarrow> exn + SearchResult" where
  "parseESearchXML_try pl xmlText =
     (case parseFromString pl xmlText of
        Inl error \<Rightarrow> Inl error
      | Inr doc \<Rightarrow>
          (let countElem = doc_querySelector doc [''Count''];
               count = (case countElem of
                          None \<Rightarrow> Num 0
                        | Some el \<Rightarrow> if truthy (textContent el) then parseInt pl (textContent el) else Num 0);
               idElements = doc_querySelectorAll doc [''Id''];
               pmids = foldl push_text [] idElements;
               transElem = doc_querySelector doc [''QueryTranslation''];
               query_translation = (case transElem of None \<Rightarrow> [] | Some el \<Rightarrow> textContent el)
           in Inr \<lparr>count = count, pmids = pmids, query_translation = query_translation\<rparr>))"

definition parseESearchXML :: "platform \<Rightarrow> string \<Rightarrow> SearchResult" where
  "parseESearchXML pl xmlText =
     (case parseESearchXML_try pl xmlText of
        Inl error \<Rightarrow> \<lparr>count = Num 0, pmids = [], query_translation = []\<rparr>
      | Inr r \<Rightarrow> r)"

text \<open>One author element of the \<^verbatim>\<open>authorElements.forEach\<close> loop.\<close>

definition push_author :: "string list \<Rightarrow> element \<Rightarrow> string list" where
  "push_author acc author =
     (let lastname = map_option textContent (querySelector author [''LastName'']);
          forename = map_option textContent (querySelector author [''ForeName''])
      in if truthy_opt forename \<and> truthy_opt lastname then acc @ [the forename @ '' '' @ the lastname]
         else if truthy_opt lastname then acc @ [the lastname]
         else acc)"

definition set_doi :: "string \<Rightarrow> element \<Rightarrow> string" where
  "set_doi d elem = (if getAttribute elem ''IdType'' = Some ''doi'' then textContent elem else d)"

text \<open>
  The body of the inner \<^verbatim>\<open>try\<close> of \<^verbatim>\<open>parseEFetchXML\<close>, for one \<^verbatim>\<open>PubmedArticle\<close>
  element. Nothing in it calls the platform, so it has no raising branch.
\<close>

definition parse_article :: "element \<Rightarrow> Article" where
  "parse_article articleElem =
     (let pmidElem = querySelector articleElem [''PMID''];
          pmid = (case pmidElem of None \<Rightarrow> [] | Some el \<Rightarrow> textContent el);
          titleElem = querySelector articleElem [''ArticleTitle''];
          title = (case titleElem of None \<Rightarrow> [] | Some el \<Rightarrow> textContent el);
          authorElements = querySelectorAll articleElem [''Author''];
          authors = foldl push_author [] authorElements;
          journalElem = querySelector articleElem [''Journal'', ''Title''];
          journal = (case journalElem of None \<Rightarrow> [] | Some el \<Rightarrow> textContent el);
          yearElem = querySelector articleElem [''PubDate'', ''Year''];
          monthElem = querySelector articleElem [''PubDate'', ''Month''];
          year = (case yearElem of None \<Rightarrow> [] | Some el \<Rightarrow> textContent el);
          month = (case monthElem of None \<Rightarrow> [] | Some el \<Rightarrow> textContent el);
          pub_date = (if truthy month then year @ ''-'' @ month else year);
          abstractElements = querySelectorAll articleElem [''AbstractText''];
          abstractParts = foldl push_text [] abstractElements;
          abstract = join '' '' abstractParts;
          articleIdElements = querySelectorAll articleElem [''ArticleId''];
          doi = foldl set_doi [] articleIdElements
      in \<lparr>pmid = pmid, title = title, authors = authors, journal = journal,
          pub_date = pub_date, abstract = abstract, doi = doi\<rparr>)"

definition parseEFetchXML_try :: "platform \<Rightarrow> string \<Rightarrow> exn + Article list" where
  "parseEFetchXML_try pl xmlText =
     (case parseFromString pl xmlText of
        Inl error \<Rightarrow> Inl error
      | Inr doc \<Rightarrow>
          (let articleElements = doc_querySelectorAll doc [''PubmedArticle'']
           in Inr (foldl (\<lambda>articles articleElem. articles @ [parse_article articleElem]) [] articleElements)))"

definition parseEFetchXML :: "platform \<Rightarrow> string \<Rightarrow> Article list" where
  "parseEFetchXML pl xmlText =
     (case parseEFetchXML_try pl xmlText of Inl error \<Rightarrow> [] | Inr articles \<Rightarrow> articles)"

definition parseELinkXML_try :: "platform \<Rightarrow> string \<Rightarrow> exn + string list" where
  "parseELinkXML_try pl xmlText =
     (case parseFromString pl xmlText of
        Inl error \<Rightarrow> Inl error
      | Inr doc \<Rightarrow>
          (let linkIdElements = doc_querySelectorAll doc [''Link'', ''Id'']
           in Inr (foldl push_text [] linkIdElements)))"

definition parseELinkXML :: "platform \<Rightarrow> string \<Rightarrow> string list" where
  "parseELinkXML pl xmlText =
     (case parseELinkXML_try pl xmlText of Inl error \<Rightarrow> [] | Inr citingPmids \<Rightarrow> citingPmids)"

subsection \<open>Parameter records\<close>

type_synonym jsobj = "(string \<times> string) list"

definition obj_get :: "jsobj \<Rightarrow> string \<Rightarrow> string option" where
  "obj_get ps k = map_of ps k"

text \<open>Property assignment: an existing property keeps its place, a new one goes last.\<close>

fun obj_set :: "jsobj \<Rightarrow> string \<Rightarrow> string \<Rightarrow> jsobj" where
  "obj_set [] k v = [(k, v)]"
| "obj_set ((k', v') # ps) k v = (if k' = k then (k, v) # ps else (k', v') # obj_set ps k v)"

definition Object_keys :: "jsobj \<Rightarrow> string list" where
  "Object_keys ps = map fst ps"

subsection \<open>HTTP utilities with caching\<close>

text \<open>
  \<^verbatim>\<open>params[key]\<close> inside the template string: a property that is not there would
  print as \<^verbatim>\<open>undefined\<close>.
\<close>

definition getCacheKey :: "string \<Rightarrow> jsobj \<Rightarrow> string" where
  "getCacheKey url params =
     (let sortedParams =
            join ''&'' (map (\<lambda>key. key @ ''='' @ (case obj_get params key of
                                                    None \<Rightarrow> ''undefined'' | Some v \<Rightarrow> v))
                           (sort (Object_keys params)))
      in ''pubmed:'' @ url @ '':'' @ sortedParams)"

text \<open>The value \<^verbatim>\<open>{ xml?: string; text?: string }\<close> that the fetcher returns.\<close>

record payload =
  xml :: "string option"
  text_field :: "string option"

record response =
  status :: nat
  statusText :: string
  content_type :: "string option"
  body :: "exn + string"

definition ok :: "response \<Rightarrow> bool" where
  "ok r = (200 \<le> status r \<and> status r \<le> 299)"

datatype fetch_outcome = Rejected exn | Responded response

text \<open>
  What \<^verbatim>\<open>cache.match\<close> followed by \<^verbatim>\<open>json()\<close> gives for a URL: nothing, a stored
  payload, or a stored body that does not decode.
\<close>

datatype cache_entry = Absent | Stored payload | Unreadable exn

datatype event =
  CacheMatch string
  | Get string jsobj
  | Sleep nat
  | CachePut string payload nat

text \<open>
  The world the server runs in. \<open>heap\<close> holds the parameter records by reference,
  \<open>upstream n url params\<close> is the outcome of the \<open>n\<close>-th GET issued when it asks for
  \<open>url\<close> with the query string of \<open>params\<close>, \<open>sent\<close> counts the GETs issued, and
  \<open>trace\<close> records the effects in order (\<open>Sleep\<close> in milliseconds, \<open>CachePut\<close> with
  its max-age in seconds).
\<close>

record world =
  heap :: "nat \<Rightarrow> jsobj"
  next_ref :: nat
  cache :: "string \<Rightarrow> cache_entry"
  upstream :: "nat \<Rightarrow> string \<Rightarrow> jsobj \<Rightarrow> fetch_outcome"
  sent :: nat
  trace :: "event list"
  utc_year :: int

definition new_object :: "jsobj \<Rightarrow> world \<Rightarrow> nat \<times> world" where
  "new_object obj w = (next_ref w, w\<lparr>heap := (heap w)(next_ref w := obj), next_ref := next_ref w + 1\<rparr>)"

text \<open>The body of the \<^verbatim>\<open>try\<close> inside the retry loop: one GET.\<close>

definition attempt_try :: "string \<Rightarrow> jsobj \<Rightarrow> string \<Rightarrow> world \<Rightarrow> (exn + payload) \<times> world" where
  "attempt_try url params cacheUrl w =
     (let w1 = w\<lparr>sent := sent w + 1, trace := trace w @ [Get url params]\<rparr> in
      case upstream w (sent w) url params of
        Rejected error \<Rightarrow> (Inl error, w1)
      | Responded response \<Rightarrow>
          if status response = 404 then (Inr \<lparr>xml = None, text_field = None\<rparr>, w1)
          else if \<not> ok response then
            (Inl (JsError (''HTTP '' @ toString (int (status response)) @ '': '' @ statusText response)), w1)
          else
            (let contentType = (case content_type response of None \<Rightarrow> [] | Some c \<Rightarrow> toLowerCase c) in
             case body response of
               Inl error \<Rightarrow> (Inl error, w1)
             | Inr text \<Rightarrow>
                 (let result = (if includes_str contentType ''xml''
                                then \<lparr>xml = Some text, text_field = None\<rparr>
                                else \<lparr>xml = None, text_field = Some text\<rparr>)
                  in (Inr result,
                      w1\<lparr>cache := (cache w1)(cacheUrl := Stored result),
                         trace := trace w1 @ [CachePut cacheUrl result CACHE_TTL]\<rparr>))))"

text \<open>The \<^verbatim>\<open>for\<close> loop of \<^verbatim>\<open>fetchWithRetry\<close>, from a given attempt index.\<close>

function fetch_loop :: "string \<Rightarrow> jsobj \<Rightarrow> string \<Rightarrow> nat \<Rightarrow> world \<Rightarrow> (exn + payload) \<times> world" where
  "fetch_loop url params cacheUrl attempt w =
     (if attempt < MAX_RETRIES then
        (case attempt_try url params cacheUrl w of
           (Inr result, w1) \<Rightarrow> (Inr result, w1)
         | (Inl error, w1) \<Rightarrow>
             if attempt = MAX_RETRIES - 1 then (Inl error, w1)
             else fetch_loop url params cacheUrl (attempt + 1)
                    (w1\<lparr>trace := trace w1 @ [Sleep (2 ^ attempt * 1000)]\<rparr>))
      else (Inr \<lparr>xml = None, text_field = None\<rparr>, w))"
  by pat_completeness auto
termination
  by (relation "measure (\<lambda>(url, params, cacheUrl, attempt, w). MAX_RETRIES - attempt)") auto

declare fetch_loop.simps [simp del]

definition fetchWithRetry :: "string \<Rightarrow> nat \<Rightarrow> string option \<Rightarrow> world \<Rightarrow> (exn + payload) \<times> world" where
  "fetchWithRetry url params apiKey w =
     (let w1 = (case apiKey of
                  None \<Rightarrow> w
                | Some k \<Rightarrow> if length k > 0
                            then w\<lparr>heap := (heap w)(params := obj_set (heap w params) ''api_key'' k)\<rparr>
                            else w);
          cacheKey = getCacheKey url (heap w1 params);
          cacheUrl = ''https://cache.pubmed.mcp/'' @ cacheKey;
          w2 = w1\<lparr>trace := trace w1 @ [CacheMatch cacheUrl]\<rparr>
      in case cache w2 cacheUrl of
           Stored cached \<Rightarrow> (Inr cached, w2)
         | Unreadable error \<Rightarrow> (Inl error, w2)
         | Absent \<Rightarrow> fetch_loop url (heap w2 params) cacheUrl 0 w2)"

subsection \<open>Tool implementations\<close>

text \<open>
  The fields of each tool's \<^verbatim>\<open>params\<close> argument are the arguments of its model, an
  optional field as an \<open>option\<close>; \<open>max_results\<close> is an integer. For each tool,
  \<open>tool_urlParams\<close> is the block of its \<^verbatim>\<open>try\<close> that builds the object literal
  \<^verbatim>\<open>urlParams\<close>, and the tool itself allocates that object, calls the fetcher and
  decodes. Each tool is one \<^verbatim>\<open>try/catch\<close>: the \<open>Inl\<close> branch of the final \<open>case\<close>
  is its \<^verbatim>\<open>catch\<close>.
\<close>

definition searchArticles_urlParams ::
  "string \<Rightarrow> int option \<Rightarrow> string option \<Rightarrow> string option \<Rightarrow> string option \<Rightarrow> jsobj" where
  "searchArticles_urlParams query max_results min_date max_date sort_by =
     (let maxResults = (case max_results of None \<Rightarrow> 20 | Some m \<Rightarrow> m);
          sortBy = (case sort_by of None \<Rightarrow> ''relevance'' | Some s \<Rightarrow> s);
          fullQuery = query;
          fullQuery = (if truthy_opt min_date then fullQuery @ '' AND '' @ the min_date @ ''[PDAT]''
                       else fullQuery);
          fullQuery = (if truthy_opt max_date then fullQuery @ '' AND '' @ the max_date @ ''[PDAT]''
                       else fullQuery);
          clampedMax = min (max 1 maxResults) 100
      in [(''db'', ''pubmed''), (''term'', fullQuery), (''retmax'', toString clampedMax),
          (''retmode'', ''xml''),
          (''sort'', if sortBy = ''relevance'' then ''relevance'' else ''pub_date'')])"

definition searchArticles ::
  "platform \<Rightarrow> string \<Rightarrow> int option \<Rightarrow> string option \<Rightarrow> string option \<Rightarrow> string option
     \<Rightarrow> string option \<Rightarrow> world \<Rightarrow> SearchResult \<times> world" where
  "searchArticles pl query max_results min_date max_date sort_by apiKey w =
      (let params_obj = searchArticles_urlParams query max_results min_date max_date sort_by;
           (urlParams, w1) = new_object params_obj w;
           (res, w2) = fetchWithRetry (EUTILS_BASE @ ''/esearch.fcgi'') urlParams apiKey w1
       in case res of
            Inl error \<Rightarrow> (\<lparr>count = Num 0, pmids = [], query_translation = []\<rparr>, w2)
          | Inr result \<Rightarrow>
              (if truthy_opt (xml result) then parseESearchXML pl (the (xml result))
               else \<lparr>count = Num 0, pmids = [], query_translation = []\<rparr>, w2))"

definition getArticleDetails_urlParams :: "string list \<Rightarrow> bool option \<Rightarrow> jsobj" where
  "getArticleDetails_urlParams ids include_abstract =
     (let includeAbstract = (case include_abstract of None \<Rightarrow> True | Some b \<Rightarrow> b);
          limitedPmids = take 200 ids;
          pmidString = join '','' limitedPmids
      in [(''db'', ''pubmed''), (''id'', pmidString), (''retmode'', ''xml''),
          (''rettype'', if includeAbstract then ''abstract'' else ''medline'')])"

definition getArticleDetails ::
  "platform \<Rightarrow> string list option \<Rightarrow> bool option \<Rightarrow> string option \<Rightarrow> world
     \<Rightarrow> Article list \<times> world" where
  "getArticleDetails pl pmids_arg include_abstract apiKey w =
     (case pmids_arg of
        None \<Rightarrow> ([], w)
      | Some ids \<Rightarrow>
          if length ids = 0 then ([], w)
          else
            (let params_obj = getArticleDetails_urlParams ids include_abstract;
                 (urlParams, w1) = new_object params_obj w;
                 (res, w2) = fetchWithRetry (EUTILS_BASE @ ''/efetch.fcgi'') urlParams apiKey w1
             in case res of
                  Inl error \<Rightarrow> ([], w2)
                | Inr result \<Rightarrow>
                    (if truthy_opt (xml result) then parseEFetchXML pl (the (xml result)) else [], w2)))"

definition searchByCompound_urlParams ::
  "string \<Rightarrow> bool option \<Rightarrow> int option \<Rightarrow> int option \<Rightarrow> int \<Rightarrow> jsobj" where
  \<open>searchByCompound_urlParams compound_name include_synonyms max_results years_back now_year =
     (let includeSynonyms = (case include_synonyms of None \<Rightarrow> True | Some b \<Rightarrow> b);
          maxResults = (case max_results of None \<Rightarrow> 20 | Some m \<Rightarrow> m);
          yearsBack = (case years_back of None \<Rightarrow> 10 | Some y \<Rightarrow> y);
          query = (if includeSynonyms
                   then ''"'' @ compound_name @ ''"[MeSH Terms] OR "'' @ compound_name @ ''"[All Fields]''
                   else ''"'' @ compound_name @ ''"[All Fields]'');
          query = (if yearsBack > 0
                   then (let currentYear = now_year;
                             startYear = currentYear - yearsBack
                         in query @ '' AND '' @ toString startYear @ '':'' @ toString currentYear @ ''[PDAT]'')
                   else query);
          clampedMax = min (max 1 maxResults) 100
      in [(''db'', ''pubmed''), (''term'', query), (''retmax'', toString clampedMax),
          (''retmode'', ''xml''), (''sort'', ''relevance'')])\<close>

definition searchByCompound ::
  "platform \<Rightarrow> string \<Rightarrow> bool option \<Rightarrow> int option \<Rightarrow> int option \<Rightarrow> string option \<Rightarrow> world
     \<Rightarrow> SearchResult \<times> world" where
  "searchByCompound pl compound_name include_synonyms max_results years_back apiKey w =
      (let params_obj = searchByCompound_urlParams compound_name include_synonyms max_results
                          years_back (utc_year w);
           (urlParams, w1) = new_object params_obj w;
           (res, w2) = fetchWithRetry (EUTILS_BASE @ ''/esearch.fcgi'') urlParams apiKey w1
       in case res of
            Inl error \<Rightarrow> (\<lparr>count = Num 0, pmids = [], query_translation = []\<rparr>, w2)
          | Inr result \<Rightarrow>
              (if truthy_opt (xml result) then parseESearchXML pl (the (xml result))
               else \<lparr>count = Num 0, pmids = [], query_translation = []\<rparr>, w2))"

definition searchClinicalTrials_urlParams :: "string \<Rightarrow> string option \<Rightarrow> int option \<Rightarrow> jsobj" where
  \<open>searchClinicalTrials_urlParams condition_or_drug trial_phase max_results =
     (let maxResults = (case max_results of None \<Rightarrow> 20 | Some m \<Rightarrow> m);
          query = ''('' @ condition_or_drug @
                  '') AND ("clinical trial"[Publication Type] OR "clinical trial"[All Fields])'';
          query = (if truthy_opt trial_phase then query @ '' AND "'' @ the trial_phase @ ''"[All Fields]''
                   else query);
          clampedMax = min (max 1 maxResults) 100
      in [(''db'', ''pubmed''), (''term'', query), (''retmax'', toString clampedMax),
          (''retmode'', ''xml''), (''sort'', ''pub_date'')])\<close>

definition searchClinicalTrials ::
  "platform \<Rightarrow> string \<Rightarrow> string option \<Rightarrow> int option \<Rightarrow> string option \<Rightarrow> world
     \<Rightarrow> SearchResult \<times> world" where
  "searchClinicalTrials pl condition_or_drug trial_phase max_results apiKey w =
      (let params_obj = searchClinicalTrials_urlParams condition_or_drug trial_phase max_results;
           (urlParams, w1) = new_object params_obj w;
           (res, w2) = fetchWithRetry (EUTILS_BASE @ ''/esearch.fcgi'') urlParams apiKey w1
       in case res of
            Inl error \<Rightarrow> (\<lparr>count = Num 0, pmids = [], query_translation = []\<rparr>, w2)
          | Inr result \<Rightarrow>
              (if truthy_opt (xml result) then parseESearchXML pl (the (xml result))
               else \<lparr>count = Num 0, pmids = [], query_translation = []\<rparr>, w2))"

definition searchByAuthor_urlParams :: "string \<Rightarrow> string option \<Rightarrow> int option \<Rightarrow> jsobj" where
  \<open>searchByAuthor_urlParams author_name affiliation max_results =
     (let maxResults = (case max_results of None \<Rightarrow> 50 | Some m \<Rightarrow> m);
          query = ''"'' @ author_name @ ''"[Author]'';
          query = (if truthy_opt affiliation then query @ '' AND "'' @ the affiliation @ ''"[Affiliation]''
                   else query);
          clampedMax = min (max 1 maxResults) 100
      in [(''db'', ''pubmed''), (''term'', query), (''retmax'', toString clampedMax),
          (''retmode'', ''xml''), (''sort'', ''pub_date'')])\<close>

definition searchByAuthor ::
  "platform \<Rightarrow> string \<Rightarrow> string option \<Rightarrow> int option \<Rightarrow> string option \<Rightarrow> world
     \<Rightarrow> SearchResult \<times> world" where
  "searchByAuthor pl author_name affiliation max_results apiKey w =
      (let params_obj = searchByAuthor_urlParams author_name affiliation max_results;
           (urlParams, w1) = new_object params_obj w;
           (res, w2) = fetchWithRetry (EUTILS_BASE @ ''/esearch.fcgi'') urlParams apiKey w1
       in case res of
            Inl error \<Rightarrow> (\<lparr>count = Num 0, pmids = [], query_translation = []\<rparr>, w2)
          | Inr result \<Rightarrow>
              (if truthy_opt (xml result) then parseESearchXML pl (the (xml result))
               else \<lparr>count = Num 0, pmids = [], query_translation = []\<rparr>, w2))"

definition advancedBooleanSearch_urlParams :: "string \<Rightarrow> int option \<Rightarrow> string option \<Rightarrow> jsobj" where
  "advancedBooleanSearch_urlParams query max_results sort_by =
     (let maxResults = (case max_results of None \<Rightarrow> 20 | Some m \<Rightarrow> m);
          sortBy = (case sort_by of None \<Rightarrow> ''relevance'' | Some s \<Rightarrow> s);
          clampedMax = min (max 1 maxResults) 100
      in [(''db'', ''pubmed''), (''term'', query), (''retmax'', toString clampedMax),
          (''retmode'', ''xml''),
          (''sort'', if sortBy = ''relevance'' then ''relevance'' else ''pub_date'')])"

definition advancedBooleanSearch ::
  "platform \<Rightarrow> string \<Rightarrow> int option \<Rightarrow> string option \<Rightarrow> string option \<Rightarrow> world
     \<Rightarrow> SearchResult \<times> world" where
  "advancedBooleanSearch pl query max_results sort_by apiKey w =
      (let params_obj = advancedBooleanSearch_urlParams query max_results sort_by;
           (urlParams, w1) = new_object params_obj w;
           (res, w2) = fetchWithRetry (EUTILS_BASE @ ''/esearch.fcgi'') urlParams apiKey w1
       in case res of
            Inl error \<Rightarrow> (\<lparr>count = Num 0, pmids = [], query_translation = []\<rparr>, w2)
          | Inr result \<Rightarrow>
              (if truthy_opt (xml result) then parseESearchXML pl (the (xml result))
               else \<lparr>count = Num 0, pmids = [], query_translation = []\<rparr>, w2))"

definition getArticleCitations_urlParams :: "string \<Rightarrow> jsobj" where
  "getArticleCitations_urlParams pmid_arg =
     [(''dbfrom'', ''pubmed''), (''db'', ''pubmed''), (''id'', pmid_arg),
      (''linkname'', ''pubmed_pubmed_citedin''), (''retmode'', ''xml'')]"

definition getArticleCitations ::
  "platform \<Rightarrow> string \<Rightarrow> int option \<Rightarrow> string option \<Rightarrow> world \<Rightarrow> string list \<times> world" where
  "getArticleCitations pl pmid_arg max_results apiKey w =
     (let maxResults = (case max_results of None \<Rightarrow> 50 | Some m \<Rightarrow> m);
          params_obj = getArticleCitations_urlParams pmid_arg;
          (urlParams, w1) = new_object params_obj w;
          (res, w2) = fetchWithRetry (EUTILS_BASE @ ''/elink.fcgi'') urlParams apiKey w1
      in case res of
           Inl error \<Rightarrow> ([], w2)
         | Inr result \<Rightarrow>
             (if truthy_opt (xml result)
              then (let citingPmids = parseELinkXML pl (the (xml result))
                    in slice0 citingPmids maxResults)
              else [], w2))"

text \<open>
  The object literal followed by the call of the fetcher, as every tool has it:
  \<^verbatim>\<open>const urlParams = {...}; const result = await fetchWithRetry(url, urlParams, apiKey, cache)\<close>.
\<close>

definition fetch_fresh :: "string \<Rightarrow> jsobj \<Rightarrow> string option \<Rightarrow> world \<Rightarrow> (exn + payload) \<times> world" where
  "fetch_fresh url obj apiKey w = (case new_object obj w of (urlParams, w1) \<Rightarrow> fetchWithRetry url urlParams apiKey w1)"

subsection \<open>Concrete inputs\<close>

text \<open>Three upstream payloads and the documents a DOM parser makes of them.\<close>

definition esearch_xml :: string where
  "esearch_xml = ''<eSearchResult><Count>2</Count><IdList><Id>111</Id><Id>222</Id></IdList><QueryTranslation>aspirin</QueryTranslation></eSearchResult>''"

definition esearch_doc :: document where
  "esearch_doc = Document (Element ''eSearchResult'' []
     [Element ''Count'' [] [Text ''2''],
      Element ''IdList'' [] [Element ''Id'' [] [Text ''111''], Element ''Id'' [] [Text ''222'']],
      Element ''QueryTranslation'' [] [Text ''aspirin'']])"

definition elink_xml :: string where
  "elink_xml = ''<eLinkResult><LinkSet><IdList><Id>1</Id></IdList><LinkSetDb><Link><Id>11</Id></Link><Link><Id>22</Id></Link><Link><Id>33</Id></Link></LinkSetDb></LinkSet></eLinkResult>''"

definition elink_doc :: document where
  "elink_doc = Document (Element ''eLinkResult'' []
     [Element ''LinkSet'' []
        [Element ''IdList'' [] [Element ''Id'' [] [Text ''1'']],
         Element ''LinkSetDb'' []
           [Element ''Link'' [] [Element ''Id'' [] [Text ''11'']],
            Element ''Link'' [] [Element ''Id'' [] [Text ''22'']],
            Element ''Link'' [] [Element ''Id'' [] [Text ''33'']]]]])"

definition author_list :: node where
  "author_list = Element ''AuthorList'' []
     [Element ''Author'' [] [Element ''LastName'' [] [Text ''Doe''], Element ''ForeName'' [] [Text ''Jane'']],
      Element ''Author'' [] [Element ''CollectiveName'' [] [Text ''The Group'']],
      Element ''Author'' [] [Element ''LastName'' [] [Text ''Roe'']]]"

definition efetch_xml :: string where
  "efetch_xml = ''<PubmedArticleSet><PubmedArticle><PMID>111</PMID><AuthorList><Author><LastName>Doe</LastName><ForeName>Jane</ForeName></Author><Author><CollectiveName>The Group</CollectiveName></Author><Author><LastName>Roe</LastName></Author></AuthorList></PubmedArticle><PubmedArticle/></PubmedArticleSet>''"

definition efetch_doc :: document where
  "efetch_doc = Document (Element ''PubmedArticleSet'' []
     [Element ''PubmedArticle'' [] [Element ''PMID'' [] [Text ''111''], author_list],
      Element ''PubmedArticle'' [] []])"

definition example_platform :: platform where
  "example_platform =
     \<lparr>parseFromString = (\<lambda>s. case map_of [(esearch_xml, esearch_doc), (elink_xml, elink_doc),
                                           (efetch_xml, efetch_doc)] s of
                                Some d \<Rightarrow> Inr d
                              | None \<Rightarrow> Inl (JsError ''not well-formed'')),
      parseInt = (\<lambda>s. if s = ''2'' then Num 2 else NaN)\<rparr>"

definition xml_response :: "string \<Rightarrow> response" where
  "xml_response b = \<lparr>status = 200, statusText = ''OK'', content_type = Some ''text/XML'', body = Inr b\<rparr>"

definition unavailable :: response where
  "unavailable = \<lparr>status = 503, statusText = ''Service Unavailable'', content_type = None,
                   body = Inr []\<rparr>"

definition not_found :: response where
  "not_found = \<lparr>status = 404, statusText = ''Not Found'', content_type = None, body = Inr []\<rparr>"

text \<open>An upstream that answers every GET alike, and one that fails the first \<open>k\<close>.\<close>

definition always :: "fetch_outcome \<Rightarrow> nat \<Rightarrow> string \<Rightarrow> jsobj \<Rightarrow> fetch_outcome" where
  "always out n url ps = out"

definition flaky :: "nat \<Rightarrow> fetch_outcome \<Rightarrow> nat \<Rightarrow> string \<Rightarrow> jsobj \<Rightarrow> fetch_outcome" where
  "flaky k out n url ps = (if n < k then Rejected (JsError ''network'') else out)"

text \<open>A world with an empty cache and no record allocated.\<close>

definition fresh_world :: "(nat \<Rightarrow> string \<Rightarrow> jsobj \<Rightarrow> fetch_outcome) \<Rightarrow> world" where
  "fresh_world up = \<lparr>heap = (\<lambda>r. []), next_ref = 0, cache = (\<lambda>u. Absent), upstream = up,
                      sent = 0, trace = [], utc_year = 2025\<rparr>"

subsection \<open>The author rule as the specification words it\<close>

text \<open>
  A name part is present when its element is there and has text. Given name and
  family name present: \<^verbatim>\<open>"Given Family"\<close>; family name only: the family name; no
  family name: the author is left out.
\<close>

definition name_part :: "element \<Rightarrow> string \<Rightarrow> string option" where
  "name_part author tag =
     (case querySelector author [tag] of
        None \<Rightarrow> None
      | Some el \<Rightarrow> if textContent el = [] then None else Some (textContent el))"

definition author_string :: "element \<Rightarrow> string option" where
  "author_string author =
     (case (name_part author ''ForeName'', name_part author ''LastName'') of
        (Some given, Some family) \<Rightarrow> Some (given @ '' '' @ family)
      | (None, Some family) \<Rightarrow> Some family
      | (_, None) \<Rightarrow> None)"


subsection \<open>How one GET ends\<close>

text \<open>
  The three ways through the \<^verbatim>\<open>try\<close> block of the retry loop, read off the outcome
  of the GET: it raises (the request is rejected, the status is neither 404 nor 2xx,
  or the body cannot be read), it delivers a payload (2xx), or it is a 404.
\<close>

definition payload_of :: "response \<Rightarrow> string \<Rightarrow> payload" where
  "payload_of r t =
     (if includes_str (case content_type r of None \<Rightarrow> [] | Some c \<Rightarrow> toLowerCase c) ''xml''
      then \<lparr>xml = Some t, text_field = None\<rparr>
      else \<lparr>xml = None, text_field = Some t\<rparr>)"

definition failure_of :: "fetch_outcome \<Rightarrow> exn option" where
  "failure_of out =
     (case out of
        Rejected e \<Rightarrow> Some e
      | Responded r \<Rightarrow>
          if status r = 404 then None
          else if \<not> ok r then Some (JsError (''HTTP '' @ toString (int (status r)) @ '': '' @ statusText r))
          else (case body r of Inl e \<Rightarrow> Some e | Inr t \<Rightarrow> None))"

definition success_of :: "fetch_outcome \<Rightarrow> payload option" where
  "success_of out =
     (case out of
        Rejected e \<Rightarrow> None
      | Responded r \<Rightarrow>
          if ok r then (case body r of Inl e \<Rightarrow> None | Inr t \<Rightarrow> Some (payload_of r t)) else None)"

subsection \<open>The end of a search tool\<close>

text \<open>
  What each of the five search tools returns for a given result of the fetcher:
  the \<^verbatim>\<open>catch\<close> branch, and the \<^verbatim>\<open>if (result.xml)\<close> that follows the call.
\<close>

definition search_result_of :: "platform \<Rightarrow> exn + payload \<Rightarrow> SearchResult" where
  "search_result_of pl res =
     (case res of
        Inl error \<Rightarrow> \<lparr>count = Num 0, pmids = [], query_translation = []\<rparr>
      | Inr result \<Rightarrow>
          if truthy_opt (xml result) then parseESearchXML pl (the (xml result))
          else \<lparr>count = Num 0, pmids = [], query_translation = []\<rparr>)"

text \<open>The query of the specification's pass-through example.\<close>

definition spec_query :: string where
  "spec_query = ''scaffold[Title] AND diabetes[MeSH] NOT review[Publication Type]''"

text \<open>
  The identifiers that the payload returned by the fetcher holds: the non-empty
  texts of its \<^verbatim>\<open>Id\<close> elements, in document order. There is none when the fetcher
  raised, when the payload has no XML or empty XML, and when the XML does not parse.
\<close>

definition payload_ids :: "platform \<Rightarrow> exn + payload \<Rightarrow> string list" where
  "payload_ids pl res =
     (case res of
        Inl e \<Rightarrow> []
      | Inr result \<Rightarrow>
          (case xml result of
             None \<Rightarrow> []
           | Some x \<Rightarrow>
               if x = [] then []
               else (case parseFromString pl x of
                       Inl e \<Rightarrow> []
                     | Inr d \<Rightarrow> filter (\<lambda>t. t \<noteq> []) (map textContent (doc_querySelectorAll d [''Id''])))))"

section \<open>Properties\<close>

subsection \<open>The cache key\<close>

lemma sort_keys_perm:
  assumes "mset P' = mset P"
  shows "sort (Object_keys P') = sort (Object_keys P)"
proof -
  have "mset (map fst P') = mset (map fst P)"
    using assms by (metis mset_map)
  then have "mset (sort (map fst P)) = mset (map fst P')" by simp
  then show ?thesis
    unfolding Object_keys_def by (rule properties_for_sort) simp
qed

lemma obj_get_perm:
  assumes "distinct (map fst P)" and "mset P' = mset P"
  shows "obj_get P' = obj_get P"
proof -
  have m: "mset (map fst P') = mset (map fst P)"
    using assms(2) by (metis mset_map)
  have "distinct (map fst P')"
    using assms(1) m by (metis mset_eq_imp_distinct_iff)
  moreover have "set P' = set P"
    using assms(2) by (rule mset_eq_setD)
  ultimately have "map_of P' = map_of P"
    using assms(1) by (simp add: map_of_inject_set)
  then show ?thesis by (simp add: obj_get_def fun_eq_iff)
qed

lemma getCacheKey_example:
  "getCacheKey ''u'' [(''term'', ''x''), (''db'', ''pubmed'')] = ''pubmed:u:db=pubmed&term=x''"
  by code_simp

lemma sort_names: "sort (map fst P) = map fst (sort_key fst P)"
  by (rule properties_for_sort) simp_all

lemma render_sorted:
  assumes "distinct (map fst P)"
  shows "map (\<lambda>key. key @ ''='' @ (case obj_get P key of None \<Rightarrow> ''undefined'' | Some v \<Rightarrow> v))
             (sort (Object_keys P))
           = map (\<lambda>(name, v). name @ ''='' @ v) (sort_key fst P)"
proof -
  have "obj_get P name = Some v" if "(name, v) \<in> set (sort_key fst P)" for name v
    using that assms by (simp add: obj_get_def)
  then show ?thesis
    by (auto simp add: Object_keys_def sort_names)
qed

text \<open>
  Claim C7. A parameter record has each name once. For every base URL and every
  such record \<open>P\<close>, the cache key is \<^verbatim>\<open>pubmed:\<close>, the URL and \<^verbatim>\<open>:\<close>, followed by the
  entries of \<open>P\<close> sorted by name in ascending lexicographic order, each written
  \<^verbatim>\<open>name=value\<close>, joined by \<^verbatim>\<open>&\<close>. Listing the entries of \<open>P\<close> in any other order
  \<open>P'\<close> gives the same key.
\<close>

theorem getCacheKey_permutation:
  assumes "distinct (map fst P)" and "mset P' = mset P"
  shows "getCacheKey url P' = getCacheKey url P
     \<and> getCacheKey url P
         = ''pubmed:'' @ url @ '':'' @ join ''&'' (map (\<lambda>(name, v). name @ ''='' @ v) (sort_key fst P))
     \<and> sorted (map fst (sort_key fst P))
     \<and> mset (sort_key fst P) = mset P"
proof -
  have "getCacheKey url P' = getCacheKey url P"
    using sort_keys_perm [OF assms(2)] obj_get_perm [OF assms]
    by (simp add: getCacheKey_def)
  moreover have "getCacheKey url P
         = ''pubmed:'' @ url @ '':'' @ join ''&'' (map (\<lambda>(name, v). name @ ''='' @ v) (sort_key fst P))"
    using render_sorted [OF assms(1)] by (simp add: getCacheKey_def)
  ultimately show ?thesis by simp
qed

lemma sort_key_example:
  "sort_key fst [(''term'', ''x''), (''db'', ''pubmed'')] = [(''db'', ''pubmed''), (''term'', ''x'')]"
  by code_simp

theorem getCacheKey_permutation_witness:
  "distinct (map fst [(''term'', ''x''), (''db'', ''pubmed'')])
   \<and> mset [(''db'', ''pubmed''), (''term'', ''x'')] = mset [(''term'', ''x''), (''db'', ''pubmed'')]
   \<and> getCacheKey ''u'' [(''db'', ''pubmed''), (''term'', ''x'')]
       = getCacheKey ''u'' [(''term'', ''x''), (''db'', ''pubmed'')]
   \<and> getCacheKey ''u'' [(''term'', ''x''), (''db'', ''pubmed'')] = ''pubmed:u:db=pubmed&term=x''"
proof -
  have d: "distinct (map fst [(''term'', ''x''), (''db'', ''pubmed'')])" by simp
  have m: "mset [(''db'', ''pubmed''), (''term'', ''x'')] = mset [(''term'', ''x''), (''db'', ''pubmed'')]"
    by (simp add: add.commute)
  show ?thesis
    using d m getCacheKey_permutation [OF d m, of "''u''"]
    by (simp add: sort_key_example)
qed

subsection \<open>The XML decoders\<close>

lemma foldl_push_text: "foldl push_text acc es = acc @ filter truthy (map textContent es)"
  by (induction es arbitrary: acc) (simp_all add: push_text_def Let_def)

lemma push_author_spec:
  "push_author acc author = acc @ (case author_string author of None \<Rightarrow> [] | Some s \<Rightarrow> [s])"
  by (simp add: push_author_def author_string_def name_part_def truthy_opt_def truthy_def Let_def
           split: option.splits)

lemma foldl_push_author: "foldl push_author acc es = acc @ List.map_filter author_string es"
  by (induction es arbitrary: acc) (simp_all add: push_author_spec List.map_filter_simps split: option.splits)

lemma foldl_articles:
  "foldl (\<lambda>articles articleElem. articles @ [parse_article articleElem]) acc es = acc @ map parse_article es"
  by (induction es arbitrary: acc) simp_all

lemma authors_parse_article:
  "authors (parse_article a) = List.map_filter author_string (querySelectorAll a [''Author''])"
  by (simp add: parse_article_def Let_def foldl_push_author)

lemma parseEFetchXML_ok:
  "parseFromString pl x = Inr d \<Longrightarrow>
     parseEFetchXML pl x = map parse_article (doc_querySelectorAll d [''PubmedArticle''])"
  by (simp add: parseEFetchXML_def parseEFetchXML_try_def foldl_articles)

text \<open>
  Claim C9. For every document the parser accepts, the authors of each decoded
  article are its \<^verbatim>\<open>Author\<close> elements in document order, each formatted by the
  author rule: given name and family name present give \<^verbatim>\<open>"Given Family"\<close>, the
  family name alone gives itself, and an author without a family name is left out.
\<close>

theorem author_formatting:
  assumes "parseFromString pl x = Inr d"
  shows "map authors (parseEFetchXML pl x)
           = map (\<lambda>a. List.map_filter author_string (querySelectorAll a [''Author'']))
                 (doc_querySelectorAll d [''PubmedArticle''])"
  using assms by (simp add: parseEFetchXML_ok authors_parse_article)

lemma parse_efetch_example: "parseFromString example_platform efetch_xml = Inr efetch_doc"
  by (simp add: example_platform_def efetch_xml_def esearch_xml_def elink_xml_def)

theorem author_formatting_witness:
  "parseFromString example_platform efetch_xml = Inr efetch_doc
   \<and> map authors (parseEFetchXML example_platform efetch_xml) = [[''Jane Doe'', ''Roe''], []]"
proof -
  have p: "parseFromString example_platform efetch_xml = Inr efetch_doc"
    by (rule parse_efetch_example)
  have "map (\<lambda>a. List.map_filter author_string (querySelectorAll a [''Author'']))
            (doc_querySelectorAll efetch_doc [''PubmedArticle'']) = [[''Jane Doe'', ''Roe''], []]"
    by code_simp
  then show ?thesis
    using p author_formatting [OF p] by simp
qed

lemma decoders_parse_failure:
  assumes "parseFromString pl x = Inl e"
  shows "parseESearchXML pl x = \<lparr>count = Num 0, pmids = [], query_translation = []\<rparr>"
    and "parseEFetchXML pl x = []"
    and "parseELinkXML pl x = []"
  using assms
  by (simp_all add: parseESearchXML_def parseESearchXML_try_def parseEFetchXML_def
        parseEFetchXML_try_def parseELinkXML_def parseELinkXML_try_def)

lemma parseESearchXML_ok:
  assumes "parseFromString pl x = Inr d"
  shows "count (parseESearchXML pl x) =
           (case doc_querySelector d [''Count''] of
              None \<Rightarrow> Num 0
            | Some el \<Rightarrow> if truthy (textContent el) then parseInt pl (textContent el) else Num 0)"
    and "pmids (parseESearchXML pl x) = filter truthy (map textContent (doc_querySelectorAll d [''Id'']))"
    and "query_translation (parseESearchXML pl x) =
           (case doc_querySelector d [''QueryTranslation''] of None \<Rightarrow> [] | Some el \<Rightarrow> textContent el)"
  using assms
  by (simp_all add: parseESearchXML_def parseESearchXML_try_def Let_def foldl_push_text)





subsection \<open>The fetcher\<close>

lemma ok_not_404: "ok r \<Longrightarrow> status r \<noteq> 404"
  by (simp add: ok_def)

lemma outcome_cases:
  "(\<exists>e. failure_of out = Some e) \<or> (\<exists>p. success_of out = Some p)
   \<or> (\<exists>r. out = Responded r \<and> status r = 404)"
  by (cases out) (auto simp add: failure_of_def success_of_def ok_def split: sum.splits)

lemma attempt_try_failure:
  assumes "failure_of (upstream w (sent w) url ps) = Some e"
  shows "attempt_try url ps cu w = (Inl e, w\<lparr>sent := sent w + 1, trace := trace w @ [Get url ps]\<rparr>)"
  using assms
  by (auto simp add: attempt_try_def failure_of_def Let_def split: fetch_outcome.splits if_splits sum.splits)

lemma attempt_try_success:
  assumes "success_of (upstream w (sent w) url ps) = Some p"
  shows "attempt_try url ps cu w =
           (Inr p, w\<lparr>sent := sent w + 1, trace := trace w @ [Get url ps],
                    cache := (cache w)(cu := Stored p),
                    trace := trace w @ [Get url ps] @ [CachePut cu p CACHE_TTL]\<rparr>)"
  using assms
  by (auto simp add: attempt_try_def success_of_def payload_of_def Let_def ok_not_404
           split: fetch_outcome.splits if_splits sum.splits)

lemma attempt_try_404:
  assumes "upstream w (sent w) url ps = Responded r" and "status r = 404"
  shows "attempt_try url ps cu w =
           (Inr \<lparr>xml = None, text_field = None\<rparr>, w\<lparr>sent := sent w + 1, trace := trace w @ [Get url ps]\<rparr>)"
  using assms by (simp add: attempt_try_def Let_def)

lemma attempt_try_frame:
  "heap (snd (attempt_try url ps cu w)) = heap w"
  "next_ref (snd (attempt_try url ps cu w)) = next_ref w"
  "upstream (snd (attempt_try url ps cu w)) = upstream w"
  "sent (snd (attempt_try url ps cu w)) = sent w + 1"
  "utc_year (snd (attempt_try url ps cu w)) = utc_year w"
  by (simp_all add: attempt_try_def Let_def split: fetch_outcome.splits sum.splits)

lemma attempt_try_trace:
  "\<exists>evs. trace (snd (attempt_try url ps cu w)) = trace w @ Get url ps # evs"
  by (simp add: attempt_try_def Let_def split: fetch_outcome.splits sum.splits)

lemma fetch_loop_done:
  "\<not> attempt < MAX_RETRIES \<Longrightarrow>
     fetch_loop url ps cu attempt w = (Inr \<lparr>xml = None, text_field = None\<rparr>, w)"
  by (subst fetch_loop.simps) simp

lemma fetch_loop_returned:
  "attempt < MAX_RETRIES \<Longrightarrow> attempt_try url ps cu w = (Inr p, w1) \<Longrightarrow>
     fetch_loop url ps cu attempt w = (Inr p, w1)"
  by (subst fetch_loop.simps) simp

lemma fetch_loop_thrown:
  "attempt = MAX_RETRIES - 1 \<Longrightarrow> attempt_try url ps cu w = (Inl e, w1) \<Longrightarrow>
     fetch_loop url ps cu attempt w = (Inl e, w1)"
  by (subst fetch_loop.simps) (simp add: MAX_RETRIES_def)

lemma fetch_loop_retried:
  "attempt < MAX_RETRIES - 1 \<Longrightarrow> attempt_try url ps cu w = (Inl e, w1) \<Longrightarrow>
     fetch_loop url ps cu attempt w =
       fetch_loop url ps cu (attempt + 1) (w1\<lparr>trace := trace w1 @ [Sleep (2 ^ attempt * 1000)]\<rparr>)"
  by (subst fetch_loop.simps) (simp add: MAX_RETRIES_def)

lemma fetch_loop_relates:
  assumes step: "\<And>v. R v (snd (attempt_try url ps cu v))"
    and sleep: "\<And>v n. R v (v\<lparr>trace := trace v @ [Sleep n]\<rparr>)"
    and refl: "\<And>v. R v v"
    and trans: "\<And>a b c. R a b \<Longrightarrow> R b c \<Longrightarrow> R a c"
  shows "R w (snd (fetch_loop url ps cu attempt w))"
  using assms
proof (induction url ps cu attempt w rule: fetch_loop.induct)
  case (1 url ps cu attempt w)
  obtain res w1 where a: "attempt_try url ps cu w = (res, w1)"
    by (cases "attempt_try url ps cu w")
  have f: "R w w1"
    using "1.prems"(1) [of w] a by simp
  show ?case
  proof (cases "attempt < MAX_RETRIES")
    case False
    then show ?thesis using "1.prems"(3) by (simp add: fetch_loop_done)
  next
    case True
    show ?thesis
    proof (cases res)
      case (Inr p)
      then show ?thesis using fetch_loop_returned [OF True, of url ps cu w p w1] a f by simp
    next
      case (Inl e)
      show ?thesis
      proof (cases "attempt = MAX_RETRIES - 1")
        case True
        then show ?thesis using fetch_loop_thrown [OF True, of url ps cu w e w1] a f Inl by simp
      next
        case False
        then have lt: "attempt < MAX_RETRIES - 1" using True by simp
        let ?w2 = "w1\<lparr>trace := trace w1 @ [Sleep (2 ^ attempt * 1000)]\<rparr>"
        have "R ?w2 (snd (fetch_loop url ps cu (attempt + 1) ?w2))"
          using "1.IH" [OF True a [symmetric] Inl False] "1.prems" by blast
        moreover have "R w ?w2"
          using f "1.prems"(2) [of w1] "1.prems"(4) by blast
        ultimately have "R w (snd (fetch_loop url ps cu (attempt + 1) ?w2))"
          using "1.prems"(4) by blast
        then show ?thesis
          using fetch_loop_retried [OF lt, of url ps cu w e w1] a Inl by simp
      qed
    qed
  qed
qed

lemma fetch_loop_frame:
  "heap (snd (fetch_loop url ps cu attempt w)) = heap w
   \<and> next_ref (snd (fetch_loop url ps cu attempt w)) = next_ref w
   \<and> upstream (snd (fetch_loop url ps cu attempt w)) = upstream w
   \<and> utc_year (snd (fetch_loop url ps cu attempt w)) = utc_year w"
  by (rule fetch_loop_relates
        [where R = "\<lambda>a b. heap b = heap a \<and> next_ref b = next_ref a \<and> upstream b = upstream a
                            \<and> utc_year b = utc_year a"])
     (simp_all add: attempt_try_frame)

lemma fetch_loop_sent:
  "sent (snd (fetch_loop url ps cu attempt w)) \<le> sent w + (MAX_RETRIES - attempt)"
proof (induction url ps cu attempt w rule: fetch_loop.induct)
  case (1 url ps cu attempt w)
  obtain res w1 where a: "attempt_try url ps cu w = (res, w1)"
    by (cases "attempt_try url ps cu w")
  have f: "sent w1 = sent w + 1"
    using attempt_try_frame(4) [of url ps cu w] a by simp
  show ?case
  proof (cases "attempt < MAX_RETRIES")
    case False
    then show ?thesis by (simp add: fetch_loop_done)
  next
    case True
    show ?thesis
    proof (cases res)
      case (Inr p)
      then show ?thesis using fetch_loop_returned [OF True, of url ps cu w p w1] a f True by simp
    next
      case (Inl e)
      show ?thesis
      proof (cases "attempt = MAX_RETRIES - 1")
        case True
        then show ?thesis using fetch_loop_thrown [OF True, of url ps cu w e w1] a f Inl
          by (simp add: MAX_RETRIES_def)
      next
        case False
        then have lt: "attempt < MAX_RETRIES - 1" using True by simp
        show ?thesis
          using fetch_loop_retried [OF lt, of url ps cu w e w1] a f Inl lt
            "1.IH" [OF True a [symmetric] Inl False]
          by simp
      qed
    qed
  qed
qed

lemma fetch_loop_trace:
  "\<exists>evs. trace (snd (fetch_loop url ps cu attempt w)) = trace w @ evs"
proof (rule fetch_loop_relates [where R = "\<lambda>a b. \<exists>evs. trace b = trace a @ evs"])
  show "\<exists>evs. trace (snd (attempt_try url ps cu v)) = trace v @ evs" for v
    using attempt_try_trace [of url ps cu v] by blast
  show "\<exists>evs. trace b = trace a @ evs \<Longrightarrow> \<exists>evs. trace c = trace b @ evs \<Longrightarrow> \<exists>evs. trace c = trace a @ evs"
    for a b c :: world
    by auto
qed simp_all

lemma fetch_loop_step_failure:
  assumes "attempt < MAX_RETRIES - 1"
    and "failure_of (upstream w (sent w) url ps) = Some e"
  shows "fetch_loop url ps cu attempt w =
           fetch_loop url ps cu (attempt + 1)
             (w\<lparr>sent := sent w + 1, trace := trace w @ [Get url ps, Sleep (2 ^ attempt * 1000)]\<rparr>)"
  using fetch_loop_retried [OF assms(1) attempt_try_failure [OF assms(2), of cu]]
  by simp

lemma fetch_loop_last_failure:
  assumes "attempt = MAX_RETRIES - 1"
    and "failure_of (upstream w (sent w) url ps) = Some e"
  shows "fetch_loop url ps cu attempt w =
           (Inl e, w\<lparr>sent := sent w + 1, trace := trace w @ [Get url ps]\<rparr>)"
  using fetch_loop_thrown [OF assms(1) attempt_try_failure [OF assms(2), of cu]]
  by simp

lemma fetch_loop_success:
  assumes "attempt < MAX_RETRIES"
    and "success_of (upstream w (sent w) url ps) = Some p"
  shows "fetch_loop url ps cu attempt w =
           (Inr p, w\<lparr>sent := sent w + 1, cache := (cache w)(cu := Stored p),
                    trace := trace w @ [Get url ps, CachePut cu p CACHE_TTL]\<rparr>)"
  using fetch_loop_returned [OF assms(1) attempt_try_success [OF assms(2), of cu]]
  by simp

lemma fetch_loop_404:
  assumes "attempt < MAX_RETRIES"
    and "upstream w (sent w) url ps = Responded r" and "status r = 404"
  shows "fetch_loop url ps cu attempt w =
           (Inr \<lparr>xml = None, text_field = None\<rparr>,
            w\<lparr>sent := sent w + 1, trace := trace w @ [Get url ps]\<rparr>)"
  using fetch_loop_returned [OF assms(1) attempt_try_404 [OF assms(2,3), of cu]]
  by simp

lemma fetchWithRetry_miss:
  assumes "apiKey = None"
    and "cache w (''https://cache.pubmed.mcp/'' @ getCacheKey url (heap w r)) = Absent"
  shows "fetchWithRetry url r apiKey w =
           fetch_loop url (heap w r) (''https://cache.pubmed.mcp/'' @ getCacheKey url (heap w r)) 0
             (w\<lparr>trace := trace w @ [CacheMatch (''https://cache.pubmed.mcp/'' @ getCacheKey url (heap w r))]\<rparr>)"
  using assms by (simp add: fetchWithRetry_def Let_def)

lemma fetchWithRetry_hit:
  assumes "apiKey = None"
    and "cache w (''https://cache.pubmed.mcp/'' @ getCacheKey url (heap w r)) = Stored p"
  shows "fetchWithRetry url r apiKey w =
           (Inr p, w\<lparr>trace := trace w @ [CacheMatch (''https://cache.pubmed.mcp/'' @ getCacheKey url (heap w r))]\<rparr>)"
  using assms by (simp add: fetchWithRetry_def Let_def)

text \<open>
  Claim C5. The retry loop, which \<open>fetchWithRetry\<close> enters at attempt 0 on a cache
  miss, issues at most 3 GETs. When an attempt raises and it is not the last, the
  loop sleeps \<open>2 ^ attempt * 1000\<close> ms (1000, then 2000) and tries again. When all
  three attempts raise, the failure of the third is returned as raised, after three
  GETs and two sleeps, and the cache is as before. When an attempt delivers a payload,
  that payload is stored in the cache and returned, and no GET follows.
\<close>

theorem retry_policy:
  "(failure_of (upstream w (sent w) url ps) = Some e0
      \<and> failure_of (upstream w (sent w + 1) url ps) = Some e1
      \<and> failure_of (upstream w (sent w + 2) url ps) = Some e2
    \<longrightarrow> fetch_loop url ps cu 0 w =
          (Inl e2, w\<lparr>sent := sent w + 3,
                     trace := trace w @ [Get url ps, Sleep 1000, Get url ps, Sleep 2000, Get url ps]\<rparr>))
   \<and> (failure_of (upstream w (sent w) url ps) = Some e0
      \<and> failure_of (upstream w (sent w + 1) url ps) = Some e1
      \<and> success_of (upstream w (sent w + 2) url ps) = Some p
    \<longrightarrow> fetch_loop url ps cu 0 w =
          (Inr p, w\<lparr>sent := sent w + 3, cache := (cache w)(cu := Stored p),
                    trace := trace w @ [Get url ps, Sleep 1000, Get url ps, Sleep 2000, Get url ps,
                                        CachePut cu p CACHE_TTL]\<rparr>))
   \<and> (failure_of (upstream w (sent w) url ps) = Some e0
      \<and> success_of (upstream w (sent w + 1) url ps) = Some p
    \<longrightarrow> fetch_loop url ps cu 0 w =
          (Inr p, w\<lparr>sent := sent w + 2, cache := (cache w)(cu := Stored p),
                    trace := trace w @ [Get url ps, Sleep 1000, Get url ps, CachePut cu p CACHE_TTL]\<rparr>))
   \<and> (success_of (upstream w (sent w) url ps) = Some p
    \<longrightarrow> fetch_loop url ps cu 0 w =
          (Inr p, w\<lparr>sent := sent w + 1, cache := (cache w)(cu := Stored p),
                    trace := trace w @ [Get url ps, CachePut cu p CACHE_TTL]\<rparr>))
   \<and> sent (snd (fetch_loop url ps cu 0 w)) \<le> sent w + 3"
proof -
  let ?w1 = "w\<lparr>sent := sent w + 1, trace := trace w @ [Get url ps, Sleep (2 ^ 0 * 1000)]\<rparr>"
  let ?w2 = "?w1\<lparr>sent := sent ?w1 + 1, trace := trace ?w1 @ [Get url ps, Sleep (2 ^ 1 * 1000)]\<rparr>"
  have s1: "fetch_loop url ps cu 0 w = fetch_loop url ps cu 1 ?w1"
    if "failure_of (upstream w (sent w) url ps) = Some e0"
    using fetch_loop_step_failure [of 0 w url ps e0 cu] that by (simp add: MAX_RETRIES_def)
  have s2: "fetch_loop url ps cu 1 ?w1 = fetch_loop url ps cu 2 ?w2"
    if "failure_of (upstream w (sent w + 1) url ps) = Some e1"
    using fetch_loop_step_failure [of 1 ?w1 url ps e1 cu] that by (simp add: MAX_RETRIES_def numeral_2_eq_2)
  have c1: "fetch_loop url ps cu 0 w =
          (Inl e2, w\<lparr>sent := sent w + 3,
                     trace := trace w @ [Get url ps, Sleep 1000, Get url ps, Sleep 2000, Get url ps]\<rparr>)"
    if "failure_of (upstream w (sent w) url ps) = Some e0"
      "failure_of (upstream w (sent w + 1) url ps) = Some e1"
      "failure_of (upstream w (sent w + 2) url ps) = Some e2"
    using s1 [OF that(1)] s2 [OF that(2)] fetch_loop_last_failure [of 2 ?w2 url ps e2 cu] that(3)
    by (simp add: MAX_RETRIES_def)
  have c2: "fetch_loop url ps cu 0 w =
          (Inr p, w\<lparr>sent := sent w + 3, cache := (cache w)(cu := Stored p),
                    trace := trace w @ [Get url ps, Sleep 1000, Get url ps, Sleep 2000, Get url ps,
                                        CachePut cu p CACHE_TTL]\<rparr>)"
    if "failure_of (upstream w (sent w) url ps) = Some e0"
      "failure_of (upstream w (sent w + 1) url ps) = Some e1"
      "success_of (upstream w (sent w + 2) url ps) = Some p"
    using s1 [OF that(1)] s2 [OF that(2)] fetch_loop_success [of 2 ?w2 url ps p cu] that(3)
    by (simp add: MAX_RETRIES_def)
  have c3: "fetch_loop url ps cu 0 w =
          (Inr p, w\<lparr>sent := sent w + 2, cache := (cache w)(cu := Stored p),
                    trace := trace w @ [Get url ps, Sleep 1000, Get url ps, CachePut cu p CACHE_TTL]\<rparr>)"
    if "failure_of (upstream w (sent w) url ps) = Some e0"
      "success_of (upstream w (sent w + 1) url ps) = Some p"
    using s1 [OF that(1)] fetch_loop_success [of 1 ?w1 url ps p cu] that(2)
    by (simp add: MAX_RETRIES_def)
  have c4: "fetch_loop url ps cu 0 w =
          (Inr p, w\<lparr>sent := sent w + 1, cache := (cache w)(cu := Stored p),
                    trace := trace w @ [Get url ps, CachePut cu p CACHE_TTL]\<rparr>)"
    if "success_of (upstream w (sent w) url ps) = Some p"
    using fetch_loop_success [of 0 w url ps p cu] that
    by (simp add: MAX_RETRIES_def)
  have c5: "sent (snd (fetch_loop url ps cu 0 w)) \<le> sent w + 3"
    using fetch_loop_sent [of url ps cu 0 w] by (simp add: MAX_RETRIES_def)
  show ?thesis
    using c1 c2 c3 c4 c5 by blast
qed

lemma failure_of_unavailable:
  "failure_of (Responded unavailable) = Some (JsError ''HTTP 503: Service Unavailable'')"
  by code_simp

lemma success_of_xml_response:
  "success_of (Responded (xml_response b)) = Some \<lparr>xml = Some b, text_field = None\<rparr>"
proof -
  have "includes_str (toLowerCase ''text/XML'') ''xml''" by code_simp
  then show ?thesis
    by (simp add: success_of_def xml_response_def ok_def payload_of_def)
qed

theorem retry_policy_witness:
  "fetch_loop ''u'' [] ''c'' 0 (fresh_world (always (Responded unavailable)))
     = (Inl (JsError ''HTTP 503: Service Unavailable''),
        (fresh_world (always (Responded unavailable)))
          \<lparr>sent := 3, trace := [Get ''u'' [], Sleep 1000, Get ''u'' [], Sleep 2000, Get ''u'' []]\<rparr>)
   \<and> fetch_loop ''u'' [] ''c'' 0 (fresh_world (flaky 2 (Responded (xml_response ''<a/>''))))
     = (Inr \<lparr>xml = Some ''<a/>'', text_field = None\<rparr>,
        (fresh_world (flaky 2 (Responded (xml_response ''<a/>''))))
          \<lparr>sent := 3,
           cache := (\<lambda>u. Absent)(''c'' := Stored \<lparr>xml = Some ''<a/>'', text_field = None\<rparr>),
           trace := [Get ''u'' [], Sleep 1000, Get ''u'' [], Sleep 2000, Get ''u'' [],
                     CachePut ''c'' \<lparr>xml = Some ''<a/>'', text_field = None\<rparr> 3600]\<rparr>)"
proof -
  let ?down = "fresh_world (always (Responded unavailable))"
  let ?shaky = "fresh_world (flaky 2 (Responded (xml_response ''<a/>'')))"
  have d: "failure_of (upstream ?down n ''u'' []) = Some (JsError ''HTTP 503: Service Unavailable'')" for n
    by (simp add: fresh_world_def always_def failure_of_unavailable)
  have f0: "failure_of (upstream ?shaky (sent ?shaky) ''u'' []) = Some (JsError ''network'')"
    by (simp add: fresh_world_def flaky_def failure_of_def)
  have f1: "failure_of (upstream ?shaky (sent ?shaky + 1) ''u'' []) = Some (JsError ''network'')"
    by (simp add: fresh_world_def flaky_def failure_of_def)
  have f2: "success_of (upstream ?shaky (sent ?shaky + 2) ''u'' []) = Some \<lparr>xml = Some ''<a/>'', text_field = None\<rparr>"
    by (simp add: fresh_world_def flaky_def success_of_xml_response)
  have a: "fetch_loop ''u'' [] ''c'' 0 ?down
     = (Inl (JsError ''HTTP 503: Service Unavailable''),
        ?down\<lparr>sent := sent ?down + 3,
               trace := trace ?down @ [Get ''u'' [], Sleep 1000, Get ''u'' [], Sleep 2000, Get ''u'' []]\<rparr>)"
    using retry_policy [of ?down "''u''" "[]" "JsError ''HTTP 503: Service Unavailable''"
        "JsError ''HTTP 503: Service Unavailable''" "JsError ''HTTP 503: Service Unavailable''" "''c''"] d
    by blast
  have b: "fetch_loop ''u'' [] ''c'' 0 ?shaky
     = (Inr \<lparr>xml = Some ''<a/>'', text_field = None\<rparr>,
        ?shaky\<lparr>sent := sent ?shaky + 3,
           cache := (cache ?shaky)(''c'' := Stored \<lparr>xml = Some ''<a/>'', text_field = None\<rparr>),
           trace := trace ?shaky @ [Get ''u'' [], Sleep 1000, Get ''u'' [], Sleep 2000, Get ''u'' [],
                     CachePut ''c'' \<lparr>xml = Some ''<a/>'', text_field = None\<rparr> CACHE_TTL]\<rparr>)"
    using retry_policy [of ?shaky "''u''" "[]" "JsError ''network''" "JsError ''network''" _ "''c''"
        "\<lparr>xml = Some ''<a/>'', text_field = None\<rparr>"] f0 f1 f2
    by blast
  show ?thesis
    using a b by (simp add: fresh_world_def CACHE_TTL_def)
qed

text \<open>
  Claim C6. At any attempt of the retry loop, a response with status 404 makes the
  loop return the empty payload at once: the GET of that attempt is its only
  effect, so no sleep and no further GET follow, nothing is raised, and the cache
  is as before.
\<close>

theorem not_found_returns_empty:
  assumes "attempt < MAX_RETRIES"
    and "upstream w (sent w) url ps = Responded r"
    and "status r = 404"
  shows "fetch_loop url ps cu attempt w =
           (Inr \<lparr>xml = None, text_field = None\<rparr>,
            w\<lparr>sent := sent w + 1, trace := trace w @ [Get url ps]\<rparr>)"
  using assms by (rule fetch_loop_404)

theorem not_found_returns_empty_witness:
  "(1::nat) < MAX_RETRIES
   \<and> upstream (fresh_world (always (Responded not_found))) (sent (fresh_world (always (Responded not_found)))) ''u'' []
       = Responded not_found
   \<and> status not_found = 404
   \<and> fetch_loop ''u'' [] ''c'' 1 (fresh_world (always (Responded not_found)))
       = (Inr \<lparr>xml = None, text_field = None\<rparr>,
          (fresh_world (always (Responded not_found)))\<lparr>sent := 1, trace := [Get ''u'' []]\<rparr>)"
proof -
  let ?w = "fresh_world (always (Responded not_found))"
  have a: "(1::nat) < MAX_RETRIES" by (simp add: MAX_RETRIES_def)
  have u: "upstream ?w (sent ?w) ''u'' [] = Responded not_found"
    by (simp add: fresh_world_def always_def)
  have s: "status not_found = 404" by (simp add: not_found_def)
  show ?thesis
    using a u s not_found_returns_empty [OF a u s, of "''c''"]
    by (simp add: fresh_world_def)
qed

lemma obj_get_obj_set: "obj_get (obj_set ps k v) k' = (if k' = k then Some v else obj_get ps k')"
  by (induction ps) (auto simp add: obj_get_def)

lemma fetchWithRetry_heap:
  "heap (snd (fetchWithRetry url r apiKey w)) =
     (case apiKey of
        None \<Rightarrow> heap w
      | Some k \<Rightarrow> if k = [] then heap w else (heap w)(r := obj_set (heap w r) ''api_key'' k))"
  by (simp add: fetchWithRetry_def Let_def fetch_loop_frame split: option.splits cache_entry.splits)

lemma fetchWithRetry_trace:
  "\<exists>evs. trace (snd (fetchWithRetry url r apiKey w)) =
      trace w @ CacheMatch (''https://cache.pubmed.mcp/''
                  @ getCacheKey url (heap (snd (fetchWithRetry url r apiKey w)) r)) # evs"
proof -
  let ?w1 = "case apiKey of
                  None \<Rightarrow> w
                | Some k \<Rightarrow> if length k > 0
                            then w\<lparr>heap := (heap w)(r := obj_set (heap w r) ''api_key'' k)\<rparr>
                            else w"
  let ?cu = "''https://cache.pubmed.mcp/'' @ getCacheKey url (heap ?w1 r)"
  let ?w2 = "?w1\<lparr>trace := trace ?w1 @ [CacheMatch ?cu]\<rparr>"
  have h: "heap (snd (fetchWithRetry url r apiKey w)) = heap ?w1"
    by (simp add: fetchWithRetry_heap split: option.splits)
  have t1: "trace ?w1 = trace w"
    by (simp split: option.splits)
  obtain evs where l: "trace (snd (fetch_loop url (heap ?w2 r) ?cu 0 ?w2)) = trace ?w2 @ evs"
    using fetch_loop_trace by blast
  have "\<exists>evs. trace (snd (fetchWithRetry url r apiKey w)) = trace w @ CacheMatch ?cu # evs"
  proof (cases "cache ?w2 ?cu")
    case Absent
    then have "fetchWithRetry url r apiKey w = fetch_loop url (heap ?w2 r) ?cu 0 ?w2"
      by (simp add: fetchWithRetry_def Let_def)
    then show ?thesis using l t1 by simp
  next
    case (Stored p)
    then have "fetchWithRetry url r apiKey w = (Inr p, ?w2)"
      by (simp add: fetchWithRetry_def Let_def)
    then show ?thesis using t1 by simp
  next
    case (Unreadable e)
    then have "fetchWithRetry url r apiKey w = (Inl e, ?w2)"
      by (simp add: fetchWithRetry_def Let_def)
    then show ?thesis using t1 by simp
  qed
  then show ?thesis using h by simp
qed

text \<open>
  Claim C10. With an API key that is defined and not empty, \<open>fetchWithRetry\<close>
  assigns it to the property \<^verbatim>\<open>api_key\<close> of the caller's record, in place: whatever
  the call's result, the record then holds the key under that name and its other
  properties are as before. With no key, or with the empty key, the heap is as
  before. The cache key that is looked up is computed from the record after the
  assignment.
\<close>

theorem api_key_injected_in_place:
  "(apiKey = Some k \<and> k \<noteq> [] \<longrightarrow>
       heap (snd (fetchWithRetry url r apiKey w)) = (heap w)(r := obj_set (heap w r) ''api_key'' k)
     \<and> obj_get (heap (snd (fetchWithRetry url r apiKey w)) r) ''api_key'' = Some k
     \<and> (\<forall>n. n \<noteq> ''api_key'' \<longrightarrow>
           obj_get (heap (snd (fetchWithRetry url r apiKey w)) r) n = obj_get (heap w r) n))
   \<and> (apiKey = None \<or> apiKey = Some [] \<longrightarrow> heap (snd (fetchWithRetry url r apiKey w)) = heap w)
   \<and> (\<exists>evs. trace (snd (fetchWithRetry url r apiKey w)) =
         trace w @ CacheMatch (''https://cache.pubmed.mcp/''
                     @ getCacheKey url (heap (snd (fetchWithRetry url r apiKey w)) r)) # evs)"
proof -
  have a: "heap (snd (fetchWithRetry url r apiKey w)) = (heap w)(r := obj_set (heap w r) ''api_key'' k)"
    if "apiKey = Some k" "k \<noteq> []"
    using that by (simp add: fetchWithRetry_heap)
  have b: "heap (snd (fetchWithRetry url r apiKey w)) = heap w" if "apiKey = None \<or> apiKey = Some []"
    using that by (auto simp add: fetchWithRetry_heap)
  show ?thesis
    using a b fetchWithRetry_trace [of url r apiKey w] by (simp add: obj_get_obj_set)
qed

theorem api_key_injected_in_place_witness:
  "obj_get (heap (snd (fetchWithRetry ''u'' 0 (Some ''KEY'') (fresh_world (always (Responded unavailable))))) 0)
      ''api_key'' = Some ''KEY''
   \<and> heap (snd (fetchWithRetry ''u'' 0 None (fresh_world (always (Responded unavailable)))))
      = heap (fresh_world (always (Responded unavailable)))"
proof -
  have k: "Some ''KEY'' = Some ''KEY'' \<and> ''KEY'' \<noteq> []" by simp
  have n: "(None :: string option) = None \<or> (None :: string option) = Some []" by simp
  show ?thesis
    using k n
      api_key_injected_in_place [of "Some ''KEY''" "''KEY''" "''u''" 0 "fresh_world (always (Responded unavailable))"]
      api_key_injected_in_place [of None "''KEY''" "''u''" 0 "fresh_world (always (Responded unavailable))"]
    by blast
qed

subsection \<open>The tools\<close>

lemma searchArticles_via:
  "searchArticles pl q mr mind maxd sb k w =
     (search_result_of pl (fst (fetch_fresh (EUTILS_BASE @ ''/esearch.fcgi'')
                                  (searchArticles_urlParams q mr mind maxd sb) k w)),
      snd (fetch_fresh (EUTILS_BASE @ ''/esearch.fcgi'') (searchArticles_urlParams q mr mind maxd sb) k w))"
  by (simp add: searchArticles_def search_result_of_def fetch_fresh_def Let_def
           split: prod.splits sum.splits)

lemma searchByCompound_via:
  "searchByCompound pl c syn mr yb k w =
     (search_result_of pl (fst (fetch_fresh (EUTILS_BASE @ ''/esearch.fcgi'')
                                  (searchByCompound_urlParams c syn mr yb (utc_year w)) k w)),
      snd (fetch_fresh (EUTILS_BASE @ ''/esearch.fcgi'')
             (searchByCompound_urlParams c syn mr yb (utc_year w)) k w))"
  by (simp add: searchByCompound_def search_result_of_def fetch_fresh_def Let_def
           split: prod.splits sum.splits)

lemma searchClinicalTrials_via:
  "searchClinicalTrials pl c ph mr k w =
     (search_result_of pl (fst (fetch_fresh (EUTILS_BASE @ ''/esearch.fcgi'')
                                  (searchClinicalTrials_urlParams c ph mr) k w)),
      snd (fetch_fresh (EUTILS_BASE @ ''/esearch.fcgi'') (searchClinicalTrials_urlParams c ph mr) k w))"
  by (simp add: searchClinicalTrials_def search_result_of_def fetch_fresh_def Let_def
           split: prod.splits sum.splits)

lemma searchByAuthor_via:
  "searchByAuthor pl a aff mr k w =
     (search_result_of pl (fst (fetch_fresh (EUTILS_BASE @ ''/esearch.fcgi'')
                                  (searchByAuthor_urlParams a aff mr) k w)),
      snd (fetch_fresh (EUTILS_BASE @ ''/esearch.fcgi'') (searchByAuthor_urlParams a aff mr) k w))"
  by (simp add: searchByAuthor_def search_result_of_def fetch_fresh_def Let_def
           split: prod.splits sum.splits)

lemma advancedBooleanSearch_via:
  "advancedBooleanSearch pl q mr sb k w =
     (search_result_of pl (fst (fetch_fresh (EUTILS_BASE @ ''/esearch.fcgi'')
                                  (advancedBooleanSearch_urlParams q mr sb) k w)),
      snd (fetch_fresh (EUTILS_BASE @ ''/esearch.fcgi'') (advancedBooleanSearch_urlParams q mr sb) k w))"
  by (simp add: advancedBooleanSearch_def search_result_of_def fetch_fresh_def Let_def
           split: prod.splits sum.splits)

lemma getArticleDetails_via:
  "getArticleDetails pl (Some ids) ia k w =
     (if ids = [] then ([], w)
      else (case fst (fetch_fresh (EUTILS_BASE @ ''/efetch.fcgi'') (getArticleDetails_urlParams ids ia) k w) of
              Inl error \<Rightarrow> []
            | Inr result \<Rightarrow> if truthy_opt (xml result) then parseEFetchXML pl (the (xml result)) else [],
            snd (fetch_fresh (EUTILS_BASE @ ''/efetch.fcgi'') (getArticleDetails_urlParams ids ia) k w)))"
  by (simp add: getArticleDetails_def fetch_fresh_def Let_def split: prod.splits sum.splits)

lemma getArticleCitations_via:
  "getArticleCitations pl p mr k w =
     (case fst (fetch_fresh (EUTILS_BASE @ ''/elink.fcgi'') (getArticleCitations_urlParams p) k w) of
        Inl error \<Rightarrow> []
      | Inr result \<Rightarrow>
          if truthy_opt (xml result)
          then slice0 (parseELinkXML pl (the (xml result))) (case mr of None \<Rightarrow> 50 | Some m \<Rightarrow> m)
          else [],
      snd (fetch_fresh (EUTILS_BASE @ ''/elink.fcgi'') (getArticleCitations_urlParams p) k w))"
  by (simp add: getArticleCitations_def fetch_fresh_def Let_def split: prod.splits sum.splits)

lemma search_result_of_failure:
  "search_result_of pl (Inl e) = \<lparr>count = Num 0, pmids = [], query_translation = []\<rparr>"
  by (simp add: search_result_of_def)

lemma search_result_of_undecodable:
  "xml p = Some x \<Longrightarrow> parseFromString pl x = Inl e \<Longrightarrow>
     search_result_of pl (Inr p) = \<lparr>count = Num 0, pmids = [], query_translation = []\<rparr>"
  by (simp add: search_result_of_def parseESearchXML_def parseESearchXML_try_def)

text \<open>
  Claim C4. Every tool returns a value of its result type in every world. When
  the fetcher raises (a failure that survived the retries, or a cached body that
  does not decode), and when the fetched payload cannot be parsed, a search tool
  returns the empty search result, and \<open>getArticleDetails\<close> and
  \<open>getArticleCitations\<close> return the empty list. \<open>getArticleDetails\<close> also returns
  the empty list when it is given no identifier.
\<close>

theorem tools_absorb_failures:
  "(fst (fetch_fresh (EUTILS_BASE @ ''/esearch.fcgi'') (searchArticles_urlParams q mr mind maxd sb) k w) = Inl e
      \<longrightarrow> fst (searchArticles pl q mr mind maxd sb k w)
            = \<lparr>count = Num 0, pmids = [], query_translation = []\<rparr>)
   \<and> (fst (fetch_fresh (EUTILS_BASE @ ''/efetch.fcgi'') (getArticleDetails_urlParams ids ia) k w) = Inl e
      \<longrightarrow> fst (getArticleDetails pl (Some ids) ia k w) = [])
   \<and> (fst (fetch_fresh (EUTILS_BASE @ ''/esearch.fcgi'')
              (searchByCompound_urlParams c syn mr yb (utc_year w)) k w) = Inl e
      \<longrightarrow> fst (searchByCompound pl c syn mr yb k w)
            = \<lparr>count = Num 0, pmids = [], query_translation = []\<rparr>)
   \<and> (fst (fetch_fresh (EUTILS_BASE @ ''/esearch.fcgi'') (searchClinicalTrials_urlParams c ph mr) k w) = Inl e
      \<longrightarrow> fst (searchClinicalTrials pl c ph mr k w)
            = \<lparr>count = Num 0, pmids = [], query_translation = []\<rparr>)
   \<and> (fst (fetch_fresh (EUTILS_BASE @ ''/esearch.fcgi'') (searchByAuthor_urlParams a aff mr) k w) = Inl e
      \<longrightarrow> fst (searchByAuthor pl a aff mr k w)
            = \<lparr>count = Num 0, pmids = [], query_translation = []\<rparr>)
   \<and> (fst (fetch_fresh (EUTILS_BASE @ ''/esearch.fcgi'') (advancedBooleanSearch_urlParams q mr sb) k w) = Inl e
      \<longrightarrow> fst (advancedBooleanSearch pl q mr sb k w)
            = \<lparr>count = Num 0, pmids = [], query_translation = []\<rparr>)
   \<and> (fst (fetch_fresh (EUTILS_BASE @ ''/elink.fcgi'') (getArticleCitations_urlParams p) k w) = Inl e
      \<longrightarrow> fst (getArticleCitations pl p mr k w) = [])
   \<and> (xml res = Some x \<and> parseFromString pl x = Inl e \<longrightarrow>
       (fst (fetch_fresh (EUTILS_BASE @ ''/esearch.fcgi'') (searchArticles_urlParams q mr mind maxd sb) k w) = Inr res
          \<longrightarrow> fst (searchArticles pl q mr mind maxd sb k w)
                = \<lparr>count = Num 0, pmids = [], query_translation = []\<rparr>)
     \<and> (fst (fetch_fresh (EUTILS_BASE @ ''/efetch.fcgi'') (getArticleDetails_urlParams ids ia) k w) = Inr res
          \<longrightarrow> fst (getArticleDetails pl (Some ids) ia k w) = [])
     \<and> (fst (fetch_fresh (EUTILS_BASE @ ''/esearch.fcgi'')
                (searchByCompound_urlParams c syn mr yb (utc_year w)) k w) = Inr res
          \<longrightarrow> fst (searchByCompound pl c syn mr yb k w)
                = \<lparr>count = Num 0, pmids = [], query_translation = []\<rparr>)
     \<and> (fst (fetch_fresh (EUTILS_BASE @ ''/esearch.fcgi'') (searchClinicalTrials_urlParams c ph mr) k w) = Inr res
          \<longrightarrow> fst (searchClinicalTrials pl c ph mr k w)
                = \<lparr>count = Num 0, pmids = [], query_translation = []\<rparr>)
     \<and> (fst (fetch_fresh (EUTILS_BASE @ ''/esearch.fcgi'') (searchByAuthor_urlParams a aff mr) k w) = Inr res
          \<longrightarrow> fst (searchByAuthor pl a aff mr k w)
                = \<lparr>count = Num 0, pmids = [], query_translation = []\<rparr>)
     \<and> (fst (fetch_fresh (EUTILS_BASE @ ''/esearch.fcgi'') (advancedBooleanSearch_urlParams q mr sb) k w) = Inr res
          \<longrightarrow> fst (advancedBooleanSearch pl q mr sb k w)
                = \<lparr>count = Num 0, pmids = [], query_translation = []\<rparr>)
     \<and> (fst (fetch_fresh (EUTILS_BASE @ ''/elink.fcgi'') (getArticleCitations_urlParams p) k w) = Inr res
          \<longrightarrow> fst (getArticleCitations pl p mr k w) = []))
   \<and> fst (getArticleDetails pl None ia k w) = []
   \<and> fst (getArticleDetails pl (Some []) ia k w) = []"
proof -
  have und: "search_result_of pl (Inr res) = \<lparr>count = Num 0, pmids = [], query_translation = []\<rparr>"
    if "xml res = Some x" "parseFromString pl x = Inl e"
    using that by (rule search_result_of_undecodable)
  have fe: "parseEFetchXML pl x = []" and le: "parseELinkXML pl x = []" if "parseFromString pl x = Inl e"
    using that by (simp_all add: decoders_parse_failure)
  have t1: "fst (searchArticles pl q mr mind maxd sb k w) = \<lparr>count = Num 0, pmids = [], query_translation = []\<rparr>"
    if "fst (fetch_fresh (EUTILS_BASE @ ''/esearch.fcgi'') (searchArticles_urlParams q mr mind maxd sb) k w) = Inl e"
    using that by (simp add: searchArticles_via search_result_of_failure)
  have t2: "fst (getArticleDetails pl (Some ids) ia k w) = []"
    if "fst (fetch_fresh (EUTILS_BASE @ ''/efetch.fcgi'') (getArticleDetails_urlParams ids ia) k w) = Inl e"
    using that by (simp add: getArticleDetails_via)
  have t3: "fst (searchByCompound pl c syn mr yb k w) = \<lparr>count = Num 0, pmids = [], query_translation = []\<rparr>"
    if "fst (fetch_fresh (EUTILS_BASE @ ''/esearch.fcgi'')
              (searchByCompound_urlParams c syn mr yb (utc_year w)) k w) = Inl e"
    using that by (simp add: searchByCompound_via search_result_of_failure)
  have t4: "fst (searchClinicalTrials pl c ph mr k w) = \<lparr>count = Num 0, pmids = [], query_translation = []\<rparr>"
    if "fst (fetch_fresh (EUTILS_BASE @ ''/esearch.fcgi'') (searchClinicalTrials_urlParams c ph mr) k w) = Inl e"
    using that by (simp add: searchClinicalTrials_via search_result_of_failure)
  have t5: "fst (searchByAuthor pl a aff mr k w) = \<lparr>count = Num 0, pmids = [], query_translation = []\<rparr>"
    if "fst (fetch_fresh (EUTILS_BASE @ ''/esearch.fcgi'') (searchByAuthor_urlParams a aff mr) k w) = Inl e"
    using that by (simp add: searchByAuthor_via search_result_of_failure)
  have t6: "fst (advancedBooleanSearch pl q mr sb k w) = \<lparr>count = Num 0, pmids = [], query_translation = []\<rparr>"
    if "fst (fetch_fresh (EUTILS_BASE @ ''/esearch.fcgi'') (advancedBooleanSearch_urlParams q mr sb) k w) = Inl e"
    using that by (simp add: advancedBooleanSearch_via search_result_of_failure)
  have t7: "fst (getArticleCitations pl p mr k w) = []"
    if "fst (fetch_fresh (EUTILS_BASE @ ''/elink.fcgi'') (getArticleCitations_urlParams p) k w) = Inl e"
    using that by (simp add: getArticleCitations_via)
  have d1: "fst (searchArticles pl q mr mind maxd sb k w) = \<lparr>count = Num 0, pmids = [], query_translation = []\<rparr>"
    if "xml res = Some x" "parseFromString pl x = Inl e"
      "fst (fetch_fresh (EUTILS_BASE @ ''/esearch.fcgi'') (searchArticles_urlParams q mr mind maxd sb) k w) = Inr res"
    using that und by (simp add: searchArticles_via)
  have d2: "fst (getArticleDetails pl (Some ids) ia k w) = []"
    if "xml res = Some x" "parseFromString pl x = Inl e"
      "fst (fetch_fresh (EUTILS_BASE @ ''/efetch.fcgi'') (getArticleDetails_urlParams ids ia) k w) = Inr res"
    using that fe by (simp add: getArticleDetails_via)
  have d3: "fst (searchByCompound pl c syn mr yb k w) = \<lparr>count = Num 0, pmids = [], query_translation = []\<rparr>"
    if "xml res = Some x" "parseFromString pl x = Inl e"
      "fst (fetch_fresh (EUTILS_BASE @ ''/esearch.fcgi'')
              (searchByCompound_urlParams c syn mr yb (utc_year w)) k w) = Inr res"
    using that und by (simp add: searchByCompound_via)
  have d4: "fst (searchClinicalTrials pl c ph mr k w) = \<lparr>count = Num 0, pmids = [], query_translation = []\<rparr>"
    if "xml res = Some x" "parseFromString pl x = Inl e"
      "fst (fetch_fresh (EUTILS_BASE @ ''/esearch.fcgi'') (searchClinicalTrials_urlParams c ph mr) k w) = Inr res"
    using that und by (simp add: searchClinicalTrials_via)
  have d5: "fst (searchByAuthor pl a aff mr k w) = \<lparr>count = Num 0, pmids = [], query_translation = []\<rparr>"
    if "xml res = Some x" "parseFromString pl x = Inl e"
      "fst (fetch_fresh (EUTILS_BASE @ ''/esearch.fcgi'') (searchByAuthor_urlParams a aff mr) k w) = Inr res"
    using that und by (simp add: searchByAuthor_via)
  have d6: "fst (advancedBooleanSearch pl q mr sb k w) = \<lparr>count = Num 0, pmids = [], query_translation = []\<rparr>"
    if "xml res = Some x" "parseFromString pl x = Inl e"
      "fst (fetch_fresh (EUTILS_BASE @ ''/esearch.fcgi'') (advancedBooleanSearch_urlParams q mr sb) k w) = Inr res"
    using that und by (simp add: advancedBooleanSearch_via)
  have d7: "fst (getArticleCitations pl p mr k w) = []"
    if "xml res = Some x" "parseFromString pl x = Inl e"
      "fst (fetch_fresh (EUTILS_BASE @ ''/elink.fcgi'') (getArticleCitations_urlParams p) k w) = Inr res"
    using that le by (simp add: getArticleCitations_via slice0_def)
  have n1: "fst (getArticleDetails pl None ia k w) = []"
    by (simp add: getArticleDetails_def)
  have n2: "fst (getArticleDetails pl (Some []) ia k w) = []"
    by (simp add: getArticleDetails_def)
  show ?thesis
    using t1 t2 t3 t4 t5 t6 t7 d1 d2 d3 d4 d5 d6 d7 n1 n2 by blast
qed

lemma fetch_fresh_down:
  "fst (fetch_fresh (EUTILS_BASE @ ''/esearch.fcgi'') (searchArticles_urlParams ''aspirin'' None None None None)
          None (fresh_world (always (Responded unavailable))))
     = Inl (JsError ''HTTP 503: Service Unavailable'')"
  by code_simp

theorem tools_absorb_failures_witness:
  "fst (fetch_fresh (EUTILS_BASE @ ''/esearch.fcgi'') (searchArticles_urlParams ''aspirin'' None None None None)
          None (fresh_world (always (Responded unavailable))))
     = Inl (JsError ''HTTP 503: Service Unavailable'')
   \<and> fst (searchArticles example_platform ''aspirin'' None None None None None
            (fresh_world (always (Responded unavailable))))
     = \<lparr>count = Num 0, pmids = [], query_translation = []\<rparr>"
  using fetch_fresh_down
    tools_absorb_failures [of "''aspirin''" None None None None None
       "fresh_world (always (Responded unavailable))" "JsError ''HTTP 503: Service Unavailable''"
       example_platform]
  by blast

lemma attempt_try_gets:
  "Get u ps' \<in> set (trace (snd (attempt_try url ps cu w))) \<Longrightarrow>
     Get u ps' \<in> set (trace w) \<or> (u = url \<and> ps' = ps)"
  by (auto simp add: attempt_try_def Let_def split: fetch_outcome.splits sum.splits if_splits)

lemma fetch_loop_gets:
  "Get u ps' \<in> set (trace (snd (fetch_loop url ps cu attempt w))) \<Longrightarrow>
     Get u ps' \<in> set (trace w) \<or> (u = url \<and> ps' = ps)"
  using fetch_loop_relates
    [where R = "\<lambda>a b. Get u ps' \<in> set (trace b) \<longrightarrow> Get u ps' \<in> set (trace a) \<or> (u = url \<and> ps' = ps)"
       and url = url and ps = ps and cu = cu and attempt = attempt and w = w]
    attempt_try_gets [of u ps' url ps cu]
  by auto

lemma fetchWithRetry_gets:
  assumes "Get u ps' \<in> set (trace (snd (fetchWithRetry url r apiKey w)))"
  shows "Get u ps' \<in> set (trace w)
         \<or> (u = url \<and> ps' = heap (snd (fetchWithRetry url r apiKey w)) r)"
proof -
  let ?w1 = "case apiKey of
                  None \<Rightarrow> w
                | Some k \<Rightarrow> if length k > 0
                            then w\<lparr>heap := (heap w)(r := obj_set (heap w r) ''api_key'' k)\<rparr>
                            else w"
  let ?cu = "''https://cache.pubmed.mcp/'' @ getCacheKey url (heap ?w1 r)"
  let ?w2 = "?w1\<lparr>trace := trace ?w1 @ [CacheMatch ?cu]\<rparr>"
  have h: "heap (snd (fetchWithRetry url r apiKey w)) = heap ?w1"
    by (simp add: fetchWithRetry_heap split: option.splits)
  have t1: "trace ?w1 = trace w"
    by (simp split: option.splits)
  have "Get u ps' \<in> set (trace w) \<or> (u = url \<and> ps' = heap ?w1 r)"
  proof (cases "cache ?w2 ?cu")
    case Absent
    then have "fetchWithRetry url r apiKey w = fetch_loop url (heap ?w2 r) ?cu 0 ?w2"
      by (simp add: fetchWithRetry_def Let_def)
    then have "Get u ps' \<in> set (trace ?w2) \<or> (u = url \<and> ps' = heap ?w2 r)"
      using assms fetch_loop_gets [of u ps' url "heap ?w2 r" ?cu 0 ?w2] by simp
    then show ?thesis using t1 by auto
  next
    case (Stored p)
    then have "fetchWithRetry url r apiKey w = (Inr p, ?w2)"
      by (simp add: fetchWithRetry_def Let_def)
    then show ?thesis using assms t1 by auto
  next
    case (Unreadable e)
    then have "fetchWithRetry url r apiKey w = (Inl e, ?w2)"
      by (simp add: fetchWithRetry_def Let_def)
    then show ?thesis using assms t1 by auto
  qed
  then show ?thesis using h by simp
qed

lemma fetch_fresh_record:
  "heap (snd (fetch_fresh url obj apiKey w)) (next_ref w) =
     (case apiKey of None \<Rightarrow> obj | Some k \<Rightarrow> if k = [] then obj else obj_set obj ''api_key'' k)"
  by (simp add: fetch_fresh_def new_object_def fetchWithRetry_heap split: option.splits)

lemma fetch_fresh_gets:
  assumes "Get u ps' \<in> set (trace (snd (fetch_fresh url obj apiKey w)))"
  shows "Get u ps' \<in> set (trace w)
         \<or> (u = url \<and> ps' = heap (snd (fetch_fresh url obj apiKey w)) (next_ref w))"
  using assms
    fetchWithRetry_gets [of u ps' url "next_ref w" apiKey
       "w\<lparr>heap := (heap w)(next_ref w := obj), next_ref := next_ref w + 1\<rparr>"]
  by (simp add: fetch_fresh_def new_object_def)

lemma term_of_advancedBooleanSearch_urlParams:
  "obj_get (advancedBooleanSearch_urlParams q mr sb) ''term'' = Some q"
  by (simp add: advancedBooleanSearch_urlParams_def obj_get_def Let_def)

text \<open>
  Claim C8. For every query string \<open>q\<close>, \<open>advancedBooleanSearch\<close> builds a record
  whose \<^verbatim>\<open>term\<close> is \<open>q\<close> itself, the record it hands to the fetcher still has that
  \<^verbatim>\<open>term\<close> after the call, and every GET the call issues goes to \<^verbatim>\<open>esearch.fcgi\<close>
  with \<^verbatim>\<open>term\<close> equal to \<open>q\<close>, unchanged.
\<close>

theorem advanced_query_verbatim:
  "obj_get (advancedBooleanSearch_urlParams q mr sb) ''term'' = Some q
   \<and> obj_get (heap (snd (advancedBooleanSearch pl q mr sb k w)) (next_ref w)) ''term'' = Some q
   \<and> (\<forall>u ps. Get u ps \<in> set (trace (snd (advancedBooleanSearch pl q mr sb k w))) \<longrightarrow>
         Get u ps \<in> set (trace w)
         \<or> (u = EUTILS_BASE @ ''/esearch.fcgi'' \<and> obj_get ps ''term'' = Some q))"
proof -
  let ?url = "EUTILS_BASE @ ''/esearch.fcgi''"
  let ?obj = "advancedBooleanSearch_urlParams q mr sb"
  have w': "snd (advancedBooleanSearch pl q mr sb k w) = snd (fetch_fresh ?url ?obj k w)"
    by (simp add: advancedBooleanSearch_via)
  have rec: "obj_get (heap (snd (fetch_fresh ?url ?obj k w)) (next_ref w)) ''term'' = Some q"
    by (simp add: fetch_fresh_record obj_get_obj_set term_of_advancedBooleanSearch_urlParams
             split: option.splits)
  have gets: "Get u ps \<in> set (trace w) \<or> (u = ?url \<and> obj_get ps ''term'' = Some q)"
    if "Get u ps \<in> set (trace (snd (fetch_fresh ?url ?obj k w)))" for u ps
    using fetch_fresh_gets [OF that] rec by auto
  show ?thesis
    using w' rec gets term_of_advancedBooleanSearch_urlParams [of q mr sb] by simp
qed

lemma advanced_get_example:
  "Get (EUTILS_BASE @ ''/esearch.fcgi'')
       [(''db'', ''pubmed''), (''term'', spec_query), (''retmax'', ''20''), (''retmode'', ''xml''),
        (''sort'', ''relevance'')]
     \<in> set (trace (snd (advancedBooleanSearch example_platform spec_query None None None
                          (fresh_world (always (Responded not_found))))))"
  by code_simp

theorem advanced_query_verbatim_witness:
  "Get (EUTILS_BASE @ ''/esearch.fcgi'')
       [(''db'', ''pubmed''), (''term'', spec_query), (''retmax'', ''20''), (''retmode'', ''xml''),
        (''sort'', ''relevance'')]
     \<in> set (trace (snd (advancedBooleanSearch example_platform spec_query None None None
                          (fresh_world (always (Responded not_found))))))
   \<and> obj_get [(''db'', ''pubmed''), (''term'', spec_query), (''retmax'', ''20''), (''retmode'', ''xml''),
              (''sort'', ''relevance'')] ''term'' = Some spec_query"
proof -
  have "Get (EUTILS_BASE @ ''/esearch.fcgi'')
       [(''db'', ''pubmed''), (''term'', spec_query), (''retmax'', ''20''), (''retmode'', ''xml''),
        (''sort'', ''relevance'')] \<notin> set (trace (fresh_world (always (Responded not_found))))"
    by (simp add: fresh_world_def)
  then show ?thesis
    using advanced_get_example
      advanced_query_verbatim [of spec_query None None example_platform None
         "fresh_world (always (Responded not_found))"]
    by blast
qed

lemma retmax_clamped:
  "obj_get (searchArticles_urlParams q mr mind maxd sb) ''retmax''
     = Some (toString (min (max 1 (case mr of None \<Rightarrow> 20 | Some m \<Rightarrow> m)) 100))"
  "obj_get (searchByCompound_urlParams c syn mr yb yr) ''retmax''
     = Some (toString (min (max 1 (case mr of None \<Rightarrow> 20 | Some m \<Rightarrow> m)) 100))"
  "obj_get (searchClinicalTrials_urlParams c ph mr) ''retmax''
     = Some (toString (min (max 1 (case mr of None \<Rightarrow> 20 | Some m \<Rightarrow> m)) 100))"
  "obj_get (searchByAuthor_urlParams a aff mr) ''retmax''
     = Some (toString (min (max 1 (case mr of None \<Rightarrow> 50 | Some m \<Rightarrow> m)) 100))"
  "obj_get (advancedBooleanSearch_urlParams q mr sb) ''retmax''
     = Some (toString (min (max 1 (case mr of None \<Rightarrow> 20 | Some m \<Rightarrow> m)) 100))"
  by (simp_all add: searchArticles_urlParams_def searchByCompound_urlParams_def
        searchClinicalTrials_urlParams_def searchByAuthor_urlParams_def
        advancedBooleanSearch_urlParams_def obj_get_def Let_def)

lemma clamp_range:
  "1 \<le> min (max 1 (m::int)) 100 \<and> min (max 1 m) 100 \<le> 100
   \<and> (m < 1 \<longrightarrow> min (max 1 m) 100 = 1) \<and> (100 < m \<longrightarrow> min (max 1 m) 100 = 100)
   \<and> (1 \<le> m \<and> m \<le> 100 \<longrightarrow> min (max 1 m) 100 = m)"
  by auto

lemma pmids_parseESearchXML:
  "pmids (parseESearchXML pl x)
     = (case parseFromString pl x of
          Inl e \<Rightarrow> []
        | Inr d \<Rightarrow> filter (\<lambda>t. t \<noteq> []) (map textContent (doc_querySelectorAll d [''Id''])))"
proof (cases "parseFromString pl x")
  case (Inl e)
  then show ?thesis by (simp add: decoders_parse_failure)
next
  case (Inr d)
  have "truthy = (\<lambda>t. t \<noteq> [])" by (simp add: fun_eq_iff truthy_def)
  then show ?thesis
    using Inr parseESearchXML_ok(2) [OF Inr] by simp
qed

lemma pmids_search_result_of:
  "pmids (search_result_of pl res) = payload_ids pl res"
  by (auto simp add: search_result_of_def payload_ids_def truthy_opt_def truthy_def
        pmids_parseESearchXML split: sum.splits option.splits)

text \<open>
  Claim C2, as amended. Each of the five search tools sends the clamped maximum
  \<open>r\<close> as \<^verbatim>\<open>retmax\<close> and returns exactly the identifiers of the payload it fetched:
  the non-empty \<^verbatim>\<open>Id\<close> texts in document order, none left out and none added. So
  when the payload holds at most \<open>r\<close> identifiers, the tool returns at most \<open>r\<close>
  identifiers, and at most 100.
\<close>

theorem search_ids_bounded_by_payload:
  "pmids (fst (searchArticles pl q mr mind maxd sb k w))
     = payload_ids pl (fst (fetch_fresh (EUTILS_BASE @ ''/esearch.fcgi'')
                             (searchArticles_urlParams q mr mind maxd sb) k w))
   \<and> pmids (fst (searchByCompound pl c syn mr yb k w))
     = payload_ids pl (fst (fetch_fresh (EUTILS_BASE @ ''/esearch.fcgi'')
                             (searchByCompound_urlParams c syn mr yb (utc_year w)) k w))
   \<and> pmids (fst (searchClinicalTrials pl c ph mr k w))
     = payload_ids pl (fst (fetch_fresh (EUTILS_BASE @ ''/esearch.fcgi'')
                             (searchClinicalTrials_urlParams c ph mr) k w))
   \<and> pmids (fst (searchByAuthor pl a aff mr k w))
     = payload_ids pl (fst (fetch_fresh (EUTILS_BASE @ ''/esearch.fcgi'')
                             (searchByAuthor_urlParams a aff mr) k w))
   \<and> pmids (fst (advancedBooleanSearch pl q mr sb k w))
     = payload_ids pl (fst (fetch_fresh (EUTILS_BASE @ ''/esearch.fcgi'')
                             (advancedBooleanSearch_urlParams q mr sb) k w))
   \<and> (length (payload_ids pl (fst (fetch_fresh (EUTILS_BASE @ ''/esearch.fcgi'')
                                (searchArticles_urlParams q mr mind maxd sb) k w)))
      \<le> nat (min (max 1 (case mr of None \<Rightarrow> 20 | Some m \<Rightarrow> m)) 100)
    \<longrightarrow> length (pmids (fst (searchArticles pl q mr mind maxd sb k w)))
          \<le> nat (min (max 1 (case mr of None \<Rightarrow> 20 | Some m \<Rightarrow> m)) 100)
      \<and> length (pmids (fst (searchArticles pl q mr mind maxd sb k w))) \<le> 100)
   \<and> (length (payload_ids pl (fst (fetch_fresh (EUTILS_BASE @ ''/esearch.fcgi'')
                                (searchByCompound_urlParams c syn mr yb (utc_year w)) k w)))
      \<le> nat (min (max 1 (case mr of None \<Rightarrow> 20 | Some m \<Rightarrow> m)) 100)
    \<longrightarrow> length (pmids (fst (searchByCompound pl c syn mr yb k w)))
          \<le> nat (min (max 1 (case mr of None \<Rightarrow> 20 | Some m \<Rightarrow> m)) 100)
      \<and> length (pmids (fst (searchByCompound pl c syn mr yb k w))) \<le> 100)
   \<and> (length (payload_ids pl (fst (fetch_fresh (EUTILS_BASE @ ''/esearch.fcgi'')
                                (searchClinicalTrials_urlParams c ph mr) k w)))
      \<le> nat (min (max 1 (case mr of None \<Rightarrow> 20 | Some m \<Rightarrow> m)) 100)
    \<longrightarrow> length (pmids (fst (searchClinicalTrials pl c ph mr k w)))
          \<le> nat (min (max 1 (case mr of None \<Rightarrow> 20 | Some m \<Rightarrow> m)) 100)
      \<and> length (pmids (fst (searchClinicalTrials pl c ph mr k w))) \<le> 100)
   \<and> (length (payload_ids pl (fst (fetch_fresh (EUTILS_BASE @ ''/esearch.fcgi'')
                                (searchByAuthor_urlParams a aff mr) k w)))
      \<le> nat (min (max 1 (case mr of None \<Rightarrow> 50 | Some m \<Rightarrow> m)) 100)
    \<longrightarrow> length (pmids (fst (searchByAuthor pl a aff mr k w)))
          \<le> nat (min (max 1 (case mr of None \<Rightarrow> 50 | Some m \<Rightarrow> m)) 100)
      \<and> length (pmids (fst (searchByAuthor pl a aff mr k w))) \<le> 100)
   \<and> (length (payload_ids pl (fst (fetch_fresh (EUTILS_BASE @ ''/esearch.fcgi'')
                                (advancedBooleanSearch_urlParams q mr sb) k w)))
      \<le> nat (min (max 1 (case mr of None \<Rightarrow> 20 | Some m \<Rightarrow> m)) 100)
    \<longrightarrow> length (pmids (fst (advancedBooleanSearch pl q mr sb k w)))
          \<le> nat (min (max 1 (case mr of None \<Rightarrow> 20 | Some m \<Rightarrow> m)) 100)
      \<and> length (pmids (fst (advancedBooleanSearch pl q mr sb k w))) \<le> 100)
   \<and> obj_get (searchArticles_urlParams q mr mind maxd sb) ''retmax''
       = Some (toString (min (max 1 (case mr of None \<Rightarrow> 20 | Some m \<Rightarrow> m)) 100))
   \<and> obj_get (searchByCompound_urlParams c syn mr yb (utc_year w)) ''retmax''
       = Some (toString (min (max 1 (case mr of None \<Rightarrow> 20 | Some m \<Rightarrow> m)) 100))
   \<and> obj_get (searchClinicalTrials_urlParams c ph mr) ''retmax''
       = Some (toString (min (max 1 (case mr of None \<Rightarrow> 20 | Some m \<Rightarrow> m)) 100))
   \<and> obj_get (searchByAuthor_urlParams a aff mr) ''retmax''
       = Some (toString (min (max 1 (case mr of None \<Rightarrow> 50 | Some m \<Rightarrow> m)) 100))
   \<and> obj_get (advancedBooleanSearch_urlParams q mr sb) ''retmax''
       = Some (toString (min (max 1 (case mr of None \<Rightarrow> 20 | Some m \<Rightarrow> m)) 100))"
proof -
  let ?url = "EUTILS_BASE @ ''/esearch.fcgi''"
  have le: "length ids \<le> nat (min (max 1 m) 100) \<and> length ids \<le> 100"
    if "length ids \<le> nat (min (max 1 m) 100)" for ids :: "string list" and m
    using that by auto
  have r1: "pmids (fst (searchArticles pl q mr mind maxd sb k w))
              = payload_ids pl (fst (fetch_fresh ?url (searchArticles_urlParams q mr mind maxd sb) k w))"
    by (simp add: searchArticles_via pmids_search_result_of)
  have r2: "pmids (fst (searchByCompound pl c syn mr yb k w))
              = payload_ids pl (fst (fetch_fresh ?url (searchByCompound_urlParams c syn mr yb (utc_year w)) k w))"
    by (simp add: searchByCompound_via pmids_search_result_of)
  have r3: "pmids (fst (searchClinicalTrials pl c ph mr k w))
              = payload_ids pl (fst (fetch_fresh ?url (searchClinicalTrials_urlParams c ph mr) k w))"
    by (simp add: searchClinicalTrials_via pmids_search_result_of)
  have r4: "pmids (fst (searchByAuthor pl a aff mr k w))
              = payload_ids pl (fst (fetch_fresh ?url (searchByAuthor_urlParams a aff mr) k w))"
    by (simp add: searchByAuthor_via pmids_search_result_of)
  have r5: "pmids (fst (advancedBooleanSearch pl q mr sb k w))
              = payload_ids pl (fst (fetch_fresh ?url (advancedBooleanSearch_urlParams q mr sb) k w))"
    by (simp add: advancedBooleanSearch_via pmids_search_result_of)
  show ?thesis
    unfolding r1 r2 r3 r4 r5
    using le retmax_clamped(1) [of q mr mind maxd sb] retmax_clamped(2) [of c syn mr yb "utc_year w"]
      retmax_clamped(3) [of c ph mr] retmax_clamped(4) [of a aff mr] retmax_clamped(5) [of q mr sb]
    by blast
qed

lemma payload_ids_example:
  "payload_ids example_platform
     (fst (fetch_fresh (EUTILS_BASE @ ''/esearch.fcgi'')
             (searchArticles_urlParams ''aspirin'' (Some 2) None None None) None
             (fresh_world (always (Responded (xml_response esearch_xml)))))) = [''111'', ''222'']"
  by code_simp

theorem search_ids_bounded_by_payload_witness:
  "length (payload_ids example_platform
     (fst (fetch_fresh (EUTILS_BASE @ ''/esearch.fcgi'')
             (searchArticles_urlParams ''aspirin'' (Some 2) None None None) None
             (fresh_world (always (Responded (xml_response esearch_xml)))))))
     \<le> nat (min (max 1 2) 100)
   \<and> pmids (fst (searchArticles example_platform ''aspirin'' (Some 2) None None None None
                   (fresh_world (always (Responded (xml_response esearch_xml)))))) = [''111'', ''222'']
   \<and> length (pmids (fst (searchArticles example_platform ''aspirin'' (Some 2) None None None None
                         (fresh_world (always (Responded (xml_response esearch_xml))))))) \<le> 2"
proof -
  have h: "length (payload_ids example_platform
     (fst (fetch_fresh (EUTILS_BASE @ ''/esearch.fcgi'')
             (searchArticles_urlParams ''aspirin'' (Some 2) None None None) None
             (fresh_world (always (Responded (xml_response esearch_xml)))))))
     \<le> nat (min (max 1 2) 100)"
    by (simp add: payload_ids_example)
  show ?thesis
    using h payload_ids_example
      search_ids_bounded_by_payload [of example_platform "''aspirin''" "Some 2" None None None None
        "fresh_world (always (Responded (xml_response esearch_xml)))"]
    by simp
qed

text \<open>
  Claim C2, as stated, fails: asked for at most 1 result, \<open>searchArticles\<close> returns
  both identifiers of a payload that holds two.
\<close>

theorem search_ids_exceed_requested_max:
  "\<not> length (pmids (fst (searchArticles example_platform ''aspirin'' (Some 1) None None None None
                            (fresh_world (always (Responded (xml_response esearch_xml)))))))
       \<le> nat (min (max 1 1) 100)"
  by code_simp

text \<open>
  Claim C1 at \<open>getArticleCitations\<close>: the requested maximum is used as the end of
  the slice as it is. With three citing identifiers upstream, a maximum of 0 gives
  no identifier and a maximum of \<open>-1\<close> gives the first two, where a maximum clamped
  to 1 gives the first one.
\<close>

theorem citations_max_results_not_clamped:
  "fst (getArticleCitations example_platform ''1'' (Some 0) None
          (fresh_world (always (Responded (xml_response elink_xml))))) = []
   \<and> fst (getArticleCitations example_platform ''1'' (Some (- 1)) None
          (fresh_world (always (Responded (xml_response elink_xml))))) = [''11'', ''22'']
   \<and> fst (getArticleCitations example_platform ''1'' (Some 1) None
          (fresh_world (always (Responded (xml_response elink_xml))))) = [''11'']"
  by code_simp

end
